theory Spec2Isabelle
  imports Main "HOL-Library.AList"
begin

section \<open>Strings\<close>

text \<open>
  Python strings are modelled as HOL strings. Case conversion and whitespace are the
  ASCII ones: every label the dashboard compares against is ASCII.
\<close>

definition ascii_upper :: string where
  "ascii_upper = ''ABCDEFGHIJKLMNOPQRSTUVWXYZ''"

definition ascii_lower :: string where
  "ascii_lower = ''abcdefghijklmnopqrstuvwxyz''"

definition lower_char :: "char \<Rightarrow> char" where
  "lower_char c = (case map_of (zip ascii_upper ascii_lower) c of Some l \<Rightarrow> l | None \<Rightarrow> c)"

text \<open>\<^verbatim>\<open>s.lower()\<close>\<close>

definition lower :: "string \<Rightarrow> string" where
  "lower s = map lower_char s"

definition is_space :: "char \<Rightarrow> bool" where
  "is_space c = (c \<in> set [CHR '' '', CHR 0x09, CHR 0x0A, CHR 0x0B, CHR 0x0C, CHR 0x0D,
                            CHR 0x1C, CHR 0x1D, CHR 0x1E, CHR 0x1F])"

text \<open>\<^verbatim>\<open>s.strip()\<close>\<close>

definition strip :: "string \<Rightarrow> string" where
  "strip s = rev (dropWhile is_space (rev (dropWhile is_space s)))"

fun starts_with :: "string \<Rightarrow> string \<Rightarrow> bool" where
  "starts_with [] s = True"
| "starts_with (p # ps) [] = False"
| "starts_with (p # ps) (c # cs) = (p = c \<and> starts_with ps cs)"

text \<open>\<^verbatim>\<open>sub in s\<close>\<close>

fun contains :: "string \<Rightarrow> string \<Rightarrow> bool" where
  "contains sub [] = (sub = [])"
| "contains sub (c # cs) = (starts_with sub (c # cs) \<or> contains sub cs)"

definition digit :: "nat \<Rightarrow> char" where
  "digit n = ''0123456789'' ! (n mod 10)"

fun str_nat :: "nat \<Rightarrow> string" where
  "str_nat n = (if n < 10 then [digit n] else str_nat (n div 10) @ [digit n])"

declare str_nat.simps [simp del]

text \<open>The format \<^verbatim>\<open>{n:02d}\<close>.\<close>

definition pad2 :: "nat \<Rightarrow> string" where
  "pad2 n = (if n < 10 then CHR ''0'' # str_nat n else str_nat n)"

section \<open>Tables\<close>

text \<open>A \<^verbatim>\<open>datetime.date\<close> stores year, month and day.\<close>

record date =
  year :: nat
  month :: nat
  day :: nat

definition date_le :: "date \<Rightarrow> date \<Rightarrow> bool" where
  "date_le a b =
     (year a < year b \<or>
      (year a = year b \<and> (month a < month b \<or> (month a = month b \<and> day a \<le> day b))))"

text \<open>A pandas timestamp: a calendar date and the time of day in nanoseconds.\<close>

record timestamp =
  on_date :: date
  time_ns :: nat

text \<open>A \<^verbatim>\<open>datetime.time\<close>.\<close>

record pytime =
  hour :: nat
  minute :: nat
  second :: nat

text \<open>
  The values a cell of a parsed sheet holds. \<open>NaN\<close>, \<open>NaT\<close> and \<open>PyNone\<close> are the
  three null values (\<^verbatim>\<open>pd.isnull\<close>). Floating-point numbers other than \<open>NaN\<close> are not
  represented: the program never computes with them.
\<close>

datatype cell =
    Str string
  | Number int
  | Bool bool
  | Stamp timestamp
  | Time pytime
  | NaN
  | NaT
  | PyNone

datatype dtype = Object | Datetime64 | DatetimeTZ | Int64 | Float64 | BoolT

text \<open>
  A \<^verbatim>\<open>DataFrame\<close>: the header (column name and dtype, in sheet order) and the rows in
  sheet order, each row holding one cell per column.
\<close>

record dataframe =
  columns :: "(string \<times> dtype) list"
  rows :: "cell list list"

definition wf_df :: "dataframe \<Rightarrow> bool" where
  "wf_df df = (distinct (map fst (columns df)) \<and>
               list_all (\<lambda>r. length r = length (columns df)) (rows df))"

datatype error =
    RequestException
  | HTTPError nat
  | ExcelError
  | ValueError
  | AttributeError
  | KeyError
  | IndexError
  | OverflowError

text \<open>
  The library functions the program calls and whose code is outside the repository are
  parameters of the model:
  \<^item> \<open>cell_str\<close>: the text \<^verbatim>\<open>astype(str)\<close> gives a cell that is not a string;
  \<^item> \<open>to_datetime\<close>: \<^verbatim>\<open>pd.to_datetime(series, errors='coerce')\<close>, from the dtype and
    cells of a column to the new dtype and cells, or an exception;
  \<^item> \<open>strptime\<close>: \<^verbatim>\<open>datetime.strptime(s, "%Y-%m-%d").date()\<close>, \<open>None\<close> for ValueError;
  \<^item> \<open>http_get\<close>: \<^verbatim>\<open>requests.get(url, headers=..., timeout=30)\<close>, the status code and
    body of the response, or an exception;
  \<^item> \<open>read_excel\<close>: \<^verbatim>\<open>pd.read_excel\<close> on the body;
  \<^item> \<open>replace_null\<close>: what \<^verbatim>\<open>DataFrame.replace({pd.NaT: None, pd.NA: None})\<close> makes
    of a null cell in a column of the given dtype (a cell that is not null matches neither
    key and stays).
\<close>

record library =
  cell_str :: "dtype \<Rightarrow> cell \<Rightarrow> string"
  to_datetime :: "dtype \<Rightarrow> cell list \<Rightarrow> error + dtype \<times> cell list"
  strptime :: "string \<Rightarrow> date option"
  http_get :: "string \<Rightarrow> (string \<times> string) list \<Rightarrow> error + nat \<times> string"
  read_excel :: "string \<Rightarrow> error + dataframe"
  replace_null :: "dtype \<Rightarrow> cell \<Rightarrow> cell"

definition column_names :: "dataframe \<Rightarrow> string list" where
  "column_names df = map fst (columns df)"

fun index_of :: "'a \<Rightarrow> 'a list \<Rightarrow> nat" where
  "index_of x [] = 0"
| "index_of x (y # ys) = (if x = y then 0 else Suc (index_of x ys))"

text \<open>
  \<^verbatim>\<open>df[c]\<close> behind the test \<^verbatim>\<open>c in df.columns\<close>: the dtype and the cells of column
  \<open>c\<close>, \<open>None\<close> when the table has no such column.
\<close>

definition series :: "dataframe \<Rightarrow> string \<Rightarrow> (dtype \<times> cell list) option" where
  "series df c =
     (case map_of (columns df) c of
        None \<Rightarrow> None
      | Some t \<Rightarrow> Some (t, map (\<lambda>r. r ! index_of c (column_names df)) (rows df)))"

text \<open>\<^verbatim>\<open>df[mask]\<close> and \<^verbatim>\<open>df.loc[mask]\<close>: the rows whose mask entry is true, in order.\<close>

definition select_rows :: "bool list \<Rightarrow> dataframe \<Rightarrow> dataframe" where
  "select_rows msk df = df\<lparr>rows := map snd (filter fst (zip msk (rows df)))\<rparr>"

definition astype_str :: "library \<Rightarrow> dtype \<Rightarrow> cell \<Rightarrow> string" where
  "astype_str L t v = (case v of Str s \<Rightarrow> s | _ \<Rightarrow> cell_str L t v)"

text \<open>\<^verbatim>\<open>series.astype(str).str.strip().str.lower()\<close>\<close>

definition cleaned :: "library \<Rightarrow> dtype \<times> cell list \<Rightarrow> string list" where
  "cleaned L s = map (\<lambda>v. lower (strip (astype_str L (fst s) v))) (snd s)"

text \<open>\<^verbatim>\<open>int((cleaned == label).sum())\<close>\<close>

definition count_label :: "string list \<Rightarrow> string \<Rightarrow> nat" where
  "count_label xs l = length (filter (\<lambda>x. x = l) xs)"

text \<open>
  The number of rows whose cell in column \<open>c\<close>, as text, trimmed and lower-cased, equals
  the label \<open>l\<close>; zero when the table has no column \<open>c\<close>.
\<close>

definition matching_rows :: "library \<Rightarrow> dataframe \<Rightarrow> string \<Rightarrow> string \<Rightarrow> nat" where
  "matching_rows L df c l =
     (case map_of (columns df) c of
        None \<Rightarrow> 0
      | Some t \<Rightarrow>
          length (filter (\<lambda>r. lower (strip (astype_str L t (r ! index_of c (column_names df)))) = l)
                    (rows df)))"

section \<open>The aggregator\<close>

definition dict_get :: "(string \<times> 'v) list \<Rightarrow> string \<Rightarrow> error + 'v" where
  "dict_get d k = (case map_of d k of Some v \<Rightarrow> Inr v | None \<Rightarrow> Inl KeyError)"

definition dict_set :: "(string \<times> 'v) list \<Rightarrow> string \<Rightarrow> 'v \<Rightarrow> (string \<times> 'v) list" where
  "dict_set d k v = AList.update k v d"

subsection \<open>app.py\<close>

definition opd_ipd_block ::
  "library \<Rightarrow> dataframe \<Rightarrow> (string \<times> nat) list \<Rightarrow> (string \<times> nat) list" where
  "opd_ipd_block L df counts =
     (case series df ''OPD&IPD'' of
        Some s \<Rightarrow>
          (let cleaned_series = cleaned L s;
               counts = dict_set counts ''opd_count'' (count_label cleaned_series ''opd completed'')
           in dict_set counts ''ipd_count'' (count_label cleaned_series ''ipd completed''))
      | None \<Rightarrow> counts)"

definition ipd_fallback_block ::
  "library \<Rightarrow> dataframe \<Rightarrow> (string \<times> nat) list \<Rightarrow> error + (string \<times> nat) list" where
  "ipd_fallback_block L df counts =
     (case series df ''IPD Status'' of
        None \<Rightarrow> Inr counts
      | Some s \<Rightarrow>
          (case dict_get counts ''ipd_count'' of
             Inl e \<Rightarrow> Inl e
           | Inr ipd \<Rightarrow>
               if ipd = 0 then
                 (let ipd_completed_count = count_label (cleaned L s) ''completed''
                  in if 0 < ipd_completed_count
                     then Inr (dict_set counts ''ipd_count'' ipd_completed_count)
                     else Inr counts)
               else Inr counts))"

definition surgery_block ::
  "library \<Rightarrow> dataframe \<Rightarrow> (string \<times> nat) list \<Rightarrow> error + (string \<times> nat) list" where
  "surgery_block L df counts =
     (case series df '' Status'' of
        None \<Rightarrow> Inr counts
      | Some s \<Rightarrow>
          (let cleaned_status = cleaned L s;
               df_filtered =
                 select_rows
                   (map (\<lambda>x. x \<in> set [''surgery suggested'', ''diagnostic suggested''])
                      cleaned_status) df
           in case series df_filtered '' Status'' of
                None \<Rightarrow> Inl KeyError
              | Some s' \<Rightarrow>
                  (let counts = dict_set counts ''surgery_suggested''
                                  (count_label (cleaned L s') ''surgery suggested'');
                       counts = dict_set counts ''diagnostic_suggested''
                                  (count_label (cleaned L s') ''diagnostic suggested'')
                   in Inr (dict_set counts ''surgery_not_suggested''
                             (count_label cleaned_status ''surgery not suggested'')))))"

definition calculate_counts :: "library \<Rightarrow> dataframe \<Rightarrow> error + (string \<times> nat) list" where
  "calculate_counts L df =
     (let counts = [(''opd_count'', 0), (''ipd_count'', 0), (''surgery_suggested'', 0),
                    (''diagnostic_suggested'', 0), (''surgery_not_suggested'', 0),
                    (''total_records'', length (rows df))]
      in case ipd_fallback_block L df (opd_ipd_block L df counts) of
           Inl e \<Rightarrow> Inl e
         | Inr counts \<Rightarrow> surgery_block L df counts)"

subsection \<open>api/index.py\<close>

text \<open>
  The first two blocks are those of app.py; the status column of the surgery and
  diagnostic counters is \<^verbatim>\<open>df.columns[0]\<close>, which raises IndexError on a table
  without columns.
\<close>

definition first_column_block ::
  "library \<Rightarrow> dataframe \<Rightarrow> (string \<times> nat) list \<Rightarrow> error + (string \<times> nat) list" where
  "first_column_block L df counts =
     (case column_names df of
        [] \<Rightarrow> Inl IndexError
      | status_col # _ \<Rightarrow>
          (case series df status_col of
             None \<Rightarrow> Inl KeyError
           | Some s \<Rightarrow>
               (let cleaned_status = cleaned L s;
                    surgery_count = count_label cleaned_status ''surgery suggested'';
                    diagnostic_count = count_label cleaned_status ''diagnostic suggested'';
                    counts = dict_set counts ''surgery_suggested'' surgery_count
                in Inr (dict_set counts ''diagnostic_suggested'' diagnostic_count))))"

definition calculate_counts_index ::
  "library \<Rightarrow> dataframe \<Rightarrow> error + (string \<times> nat) list" where
  "calculate_counts_index L df =
     (let counts = [(''opd_count'', 0), (''ipd_count'', 0), (''surgery_suggested'', 0),
                    (''diagnostic_suggested'', 0), (''total_records'', length (rows df))]
      in case ipd_fallback_block L df (opd_ipd_block L df counts) of
           Inl e \<Rightarrow> Inl e
         | Inr counts \<Rightarrow> first_column_block L df counts)"

subsection \<open>netlify/functions/api.py\<close>

definition is_null :: "cell \<Rightarrow> bool" where
  "is_null v = (v = NaN \<or> v = NaT \<or> v = PyNone)"

text \<open>\<^verbatim>\<open>series.unique()\<close>: the distinct values in order of first appearance.\<close>

fun unique :: "'a list \<Rightarrow> 'a list" where
  "unique [] = []"
| "unique (x # xs) = x # unique (filter (\<lambda>y. y \<noteq> x) xs)"

datatype summary_value = Count nat | DebugInfo "string option" "cell list"

text \<open>The truth value of an optional string: neither \<^verbatim>\<open>None\<close> nor empty.\<close>

definition truthy :: "string option \<Rightarrow> bool" where
  "truthy s = (s \<noteq> None \<and> s \<noteq> Some [])"

text \<open>The two loops that look for the status column, and the truth test of the result.\<close>

definition find_status_col :: "dataframe \<Rightarrow> string option" where
  "find_status_col df =
     (let status_col = find (\<lambda>col. lower (strip col) = ''opd&ipd'') (column_names df)
      in if \<not> truthy status_col
         then find (\<lambda>col. contains ''status'' (lower (strip col))) (column_names df)
         else status_col)"

definition calculate_counts_netlify ::
  "library \<Rightarrow> dataframe \<Rightarrow> error + (string \<times> summary_value) list" where
  "calculate_counts_netlify L df =
     (let status_col = find_status_col df
      in case status_col of
           None \<Rightarrow>
             Inr [(''opd_count'', Count 0), (''ipd_count'', Count 0),
                  (''total_records'', Count (length (rows df))),
                  (''debug_info'', DebugInfo status_col [])]
         | Some c \<Rightarrow>
             if c = [] then
               Inr [(''opd_count'', Count 0), (''ipd_count'', Count 0),
                    (''total_records'', Count (length (rows df))),
                    (''debug_info'', DebugInfo status_col [])]
             else
               (case series df c of
                  None \<Rightarrow> Inl KeyError
                | Some s \<Rightarrow>
                    (let cleaned_series = cleaned L s;
                         opd_count = count_label cleaned_series ''opd completed'';
                         ipd_count = count_label cleaned_series ''ipd completed''
                     in Inr [(''opd_count'', Count opd_count), (''ipd_count'', Count ipd_count),
                             (''total_records'', Count (length (rows df))),
                             (''debug_info'',
                                DebugInfo status_col
                                  (unique (filter (\<lambda>v. \<not> is_null v) (snd s))))])))"

section \<open>Dates\<close>

text \<open>
  The calendar arithmetic of \<^verbatim>\<open>datetime.date\<close>: a date plus a number of days goes
  through the proleptic Gregorian ordinal (day 1 is 0001-01-01) and raises OverflowError
  outside the years 1 to 9999.
\<close>

definition is_leap :: "nat \<Rightarrow> bool" where
  "is_leap y = (y mod 4 = 0 \<and> (y mod 100 \<noteq> 0 \<or> y mod 400 = 0))"

definition days_in_month_table :: "nat list" where
  "days_in_month_table = [0, 31, 28, 31, 30, 31, 30, 31, 31, 30, 31, 30, 31]"

definition days_before_month_table :: "nat list" where
  "days_before_month_table = [0, 0, 31, 59, 90, 120, 151, 181, 212, 243, 273, 304, 334]"

definition days_in_month :: "nat \<Rightarrow> nat \<Rightarrow> nat" where
  "days_in_month y m = (if m = 2 \<and> is_leap y then 29 else days_in_month_table ! m)"

definition days_before_year :: "nat \<Rightarrow> nat" where
  "days_before_year y = (let y1 = y - 1 in y1 * 365 + y1 div 4 + y1 div 400 - y1 div 100)"

definition days_before_month :: "nat \<Rightarrow> nat \<Rightarrow> nat" where
  "days_before_month y m =
     days_before_month_table ! m + (if 2 < m \<and> is_leap y then 1 else 0)"

definition toordinal :: "date \<Rightarrow> nat" where
  "toordinal d = days_before_year (year d) + days_before_month (year d) (month d) + day d"

definition fromordinal :: "nat \<Rightarrow> date" where
  "fromordinal n0 =
     (let n = n0 - 1;
          n400 = n div 146097; n = n mod 146097;
          n100 = n div 36524; n = n mod 36524;
          n4 = n div 1461; n = n mod 1461;
          n1 = n div 365; n = n mod 365;
          y = n400 * 400 + 1 + n100 * 100 + n4 * 4 + n1
      in if n1 = 4 \<or> n100 = 4 then \<lparr>year = y - 1, month = 12, day = 31\<rparr>
         else
           (let leapyear = (n1 = 3 \<and> (n4 \<noteq> 24 \<or> n100 = 3));
                m = (n + 50) div 32;
                preceding = days_before_month_table ! m + (if 2 < m \<and> leapyear then 1 else 0)
            in if n < preceding then
                 (let m' = m - 1;
                      preceding' = preceding -
                        (days_in_month_table ! m' + (if m' = 2 \<and> leapyear then 1 else 0))
                  in \<lparr>year = y, month = m', day = n - preceding' + 1\<rparr>)
               else \<lparr>year = y, month = m, day = n - preceding + 1\<rparr>))"

definition MAXORDINAL :: int where
  "MAXORDINAL = 3652059"

text \<open>\<^verbatim>\<open>d + timedelta(days=k)\<close>\<close>

definition date_add_days :: "date \<Rightarrow> int \<Rightarrow> error + date" where
  "date_add_days d k =
     (let ord = int (toordinal d) + k
      in if 0 < ord \<and> ord \<le> MAXORDINAL then Inr (fromordinal (nat ord)) else Inl OverflowError)"

text \<open>\<^verbatim>\<open>d.weekday()\<close>: Monday is 0.\<close>

definition weekday :: "date \<Rightarrow> nat" where
  "weekday d = (toordinal d + 6) mod 7"

text \<open>\<^verbatim>\<open>d + relativedelta(months=1)\<close>\<close>

definition add_one_month :: "date \<Rightarrow> error + date" where
  "add_one_month d =
     (let m = month d + 1;
          y = (if 12 < m then year d + 1 else year d);
          m = (if 12 < m then m - 12 else m)
      in if 9999 < y then Inl ValueError
         else Inr \<lparr>year = y, month = m, day = min (days_in_month y m) (day d)\<rparr>)"

subsection \<open>Preset ranges\<close>

text \<open>\<^verbatim>\<open>get_range\<close> of app.py and netlify/functions/api.py; \<open>today\<close> is \<^verbatim>\<open>date.today()\<close>.\<close>

definition get_range :: "date \<Rightarrow> string \<Rightarrow> error + date option \<times> date option" where
  "get_range today filter_type =
     (if filter_type = ''today'' then Inr (Some today, Some today)
      else if filter_type = ''yesterday'' then
        (case date_add_days today (- 1) of Inl e \<Rightarrow> Inl e | Inr y \<Rightarrow> Inr (Some y, Some y))
      else if filter_type = ''tomorrow'' then
        (case date_add_days today 1 of Inl e \<Rightarrow> Inl e | Inr t \<Rightarrow> Inr (Some t, Some t))
      else if filter_type = ''last7'' then
        (case date_add_days today (- 6) of Inl e \<Rightarrow> Inl e | Inr s \<Rightarrow> Inr (Some s, Some today))
      else if filter_type = ''last30'' then
        (case date_add_days today (- 29) of Inl e \<Rightarrow> Inl e | Inr s \<Rightarrow> Inr (Some s, Some today))
      else if filter_type = ''next7'' then
        (case date_add_days today 7 of Inl e \<Rightarrow> Inl e | Inr n7 \<Rightarrow> Inr (Some today, Some n7))
      else if filter_type = ''next30'' then
        (case date_add_days today 30 of Inl e \<Rightarrow> Inl e | Inr n30 \<Rightarrow> Inr (Some today, Some n30))
      else if filter_type = ''thisweek'' then
        (case date_add_days today (- int (weekday today)) of
           Inl e \<Rightarrow> Inl e
         | Inr start \<Rightarrow>
             (case date_add_days start 6 of
                Inl e \<Rightarrow> Inl e
              | Inr end \<Rightarrow> Inr (Some start, Some end)))
      else if filter_type = ''thismonth'' then
        (let start = today\<lparr>day := 1\<rparr>
         in case add_one_month start of
              Inl e \<Rightarrow> Inl e
            | Inr next \<Rightarrow>
                (case date_add_days next (- 1) of
                   Inl e \<Rightarrow> Inl e
                 | Inr end \<Rightarrow> Inr (Some start, Some end)))
      else if filter_type = ''thisyear'' then
        Inr (Some \<lparr>year = year today, month = 1, day = 1\<rparr>,
             Some \<lparr>year = year today, month = 12, day = 31\<rparr>)
      else Inr (None, None))"

definition presets :: "string list" where
  "presets = [''today'', ''yesterday'', ''tomorrow'', ''last7'', ''last30'', ''next7'',
              ''next30'', ''thisweek'', ''thismonth'', ''thisyear'']"

text \<open>\<^verbatim>\<open>get_range\<close> of api/index.py.\<close>

definition get_range_index :: "date \<Rightarrow> string \<Rightarrow> error + date option \<times> date option" where
  "get_range_index today filter_type =
     (if filter_type = ''today'' then Inr (Some today, Some today)
      else if filter_type = ''yesterday'' then
        (case date_add_days today (- 1) of
           Inl e \<Rightarrow> Inl e
         | Inr yesterday \<Rightarrow> Inr (Some yesterday, Some yesterday))
      else if filter_type = ''last_7_days'' then
        (case date_add_days today (- 6) of Inl e \<Rightarrow> Inl e | Inr s \<Rightarrow> Inr (Some s, Some today))
      else if filter_type = ''last_30_days'' then
        (case date_add_days today (- 29) of Inl e \<Rightarrow> Inl e | Inr s \<Rightarrow> Inr (Some s, Some today))
      else if filter_type = ''this_month'' then
        Inr (Some \<lparr>year = year today, month = month today, day = 1\<rparr>, Some today)
      else if filter_type = ''this_year'' then
        Inr (Some \<lparr>year = year today, month = 1, day = 1\<rparr>,
             Some \<lparr>year = year today, month = 12, day = 31\<rparr>)
      else Inr (None, None))"

definition presets_index :: "string list" where
  "presets_index = [''today'', ''yesterday'', ''last_7_days'', ''last_30_days'',
                    ''this_month'', ''this_year'']"

section \<open>The date filter\<close>

text \<open>
  \<^verbatim>\<open>pd.to_datetime(series, errors='coerce')\<close>: a column that is already
  \<^verbatim>\<open>datetime64[ns]\<close> comes back as it is; any other column is converted by the library.
\<close>

definition to_datetime_series :: "library \<Rightarrow> dtype \<times> cell list \<Rightarrow> error + dtype \<times> cell list" where
  "to_datetime_series L s =
     (if fst s = Datetime64 then Inr s else to_datetime L (fst s) (snd s))"

text \<open>
  \<^verbatim>\<open>df[c] = s\<close> for a column \<open>c\<close> of the table: the header takes the dtype of \<open>s\<close> and
  row \<open>j\<close> takes the \<open>j\<close>-th value of \<open>s\<close> (not-a-number where \<open>s\<close> is too short).
\<close>

definition set_column :: "dataframe \<Rightarrow> string \<Rightarrow> dtype \<times> cell list \<Rightarrow> dataframe" where
  "set_column df c s =
     (let i = index_of c (column_names df)
      in df\<lparr>columns := (columns df)[i := (c, fst s)],
            rows := map (\<lambda>(j, r). r[i := (if j < length (snd s) then snd s ! j else NaN)])
                      (enumerate 0 (rows df))\<rparr>)"

text \<open>The \<^verbatim>\<open>.dt\<close> accessor exists on datetime-like columns only.\<close>

definition dt_accessible :: "dtype \<Rightarrow> bool" where
  "dt_accessible t = (t = Datetime64 \<or> t = DatetimeTZ)"

text \<open>An element of \<^verbatim>\<open>series.dt.date\<close>: the date of a timestamp, null otherwise.\<close>

definition cell_date :: "cell \<Rightarrow> date option" where
  "cell_date v = (case v of Stamp t \<Rightarrow> Some (on_date t) | _ \<Rightarrow> None)"

text \<open>
  An element of \<^verbatim>\<open>(s.dt.date >= start) & (s.dt.date <= end)\<close>; a comparison with a
  null is false.
\<close>

definition in_range :: "date \<Rightarrow> date \<Rightarrow> cell \<Rightarrow> bool" where
  "in_range start end v =
     ((case cell_date v of Some d \<Rightarrow> date_le start d | None \<Rightarrow> False) \<and>
      (case cell_date v of Some d \<Rightarrow> date_le d end | None \<Rightarrow> False))"

text \<open>
  The body of the \<^verbatim>\<open>try\<close> of \<^verbatim>\<open>filter_df\<close> after the coercion: the mask and the
  selection, or AttributeError.
\<close>

definition mask_and_select ::
  "dataframe \<Rightarrow> string \<Rightarrow> date \<Rightarrow> date \<Rightarrow> error + dataframe" where
  "mask_and_select df c start end =
     (case series df c of
        None \<Rightarrow> Inl KeyError
      | Some s \<Rightarrow>
          if dt_accessible (fst s)
          then Inr (select_rows (map (in_range start end) (snd s)) df)
          else Inl AttributeError)"

text \<open>
  \<^verbatim>\<open>filter_df\<close> of app.py and netlify/functions/api.py. The function assigns to a
  column of its argument, so the model returns the table the function returns and the
  argument as the call leaves it.
\<close>

definition filter_df ::
  "library \<Rightarrow> string \<Rightarrow> dataframe \<Rightarrow> date option \<Rightarrow> date option \<Rightarrow> dataframe \<times> dataframe" where
  "filter_df L date_column_name df start end =
     (case (series df date_column_name, start, end) of
        (Some s, Some st, Some en) \<Rightarrow>
          (case (if fst s = Object then to_datetime_series L s else Inr s) of
             Inl e \<Rightarrow> (df, df)
           | Inr s' \<Rightarrow>
               (let df' = (if fst s = Object then set_column df date_column_name s' else df)
                in case mask_and_select df' date_column_name st en of
                     Inl e \<Rightarrow> (df', df')
                   | Inr filtered_df \<Rightarrow> (filtered_df, df')))
      | _ \<Rightarrow> (df, df))"

text \<open>
  \<^verbatim>\<open>filter_df\<close> of api/index.py: the date column is the first whose lower-cased name
  contains \<^verbatim>\<open>date\<close>, the coercion is unconditional, and an exception of the mask is not
  caught.
\<close>

definition filter_df_index ::
  "library \<Rightarrow> dataframe \<Rightarrow> date option \<Rightarrow> date option \<Rightarrow> (error + dataframe) \<times> dataframe" where
  "filter_df_index L df start end =
     (case (start, end) of
        (Some st, Some en) \<Rightarrow>
          (let date_col = find (\<lambda>c. contains ''date'' (lower c)) (column_names df)
           in case date_col of
                None \<Rightarrow> (Inr df, df)
              | Some c \<Rightarrow>
                  if c = [] then (Inr df, df)
                  else
                    (case series df c of
                       None \<Rightarrow> (Inr df, df)
                     | Some s \<Rightarrow>
                         (case to_datetime_series L s of
                            Inl e \<Rightarrow> (Inr df, df)
                          | Inr s' \<Rightarrow>
                              (let df' = set_column df c s'
                               in (mask_and_select df' c st en, df')))))
      | _ \<Rightarrow> (Inr df, df))"

section \<open>The record serializer\<close>

text \<open>\<^verbatim>\<open>strftime("%Y-%m-%d")\<close> of a timestamp (its year has four digits).\<close>

definition strftime_ymd :: "date \<Rightarrow> string" where
  "strftime_ymd d = str_nat (year d) @ ''-'' @ pad2 (month d) @ ''-'' @ pad2 (day d)"

text \<open>\<^verbatim>\<open>strftime("%H:%M:%S")\<close> of a time of day.\<close>

definition strftime_hms :: "pytime \<Rightarrow> string" where
  "strftime_hms t = pad2 (hour t) @ '':'' @ pad2 (minute t) @ '':'' @ pad2 (second t)"

text \<open>
  The three passes of \<^verbatim>\<open>_df_to_records\<close> over one column of the copy: the dates of a
  datetime column (a null becomes not-a-number in the resulting object column), the
  times of an object column that holds a time, the nulls.
\<close>

definition dates_pass :: "dtype \<times> cell list \<Rightarrow> dtype \<times> cell list" where
  "dates_pass s =
     (if fst s = Datetime64 \<or> fst s = DatetimeTZ
      then (Object, map (\<lambda>v. case v of Stamp t \<Rightarrow> Str (strftime_ymd (on_date t)) | _ \<Rightarrow> NaN) (snd s))
      else s)"

definition is_time :: "cell \<Rightarrow> bool" where
  "is_time v = (case v of Time t \<Rightarrow> True | _ \<Rightarrow> False)"

definition times_pass :: "dtype \<times> cell list \<Rightarrow> dtype \<times> cell list" where
  "times_pass s =
     (if fst s = Object \<and> list_ex is_time (snd s)
      then (fst s, map (\<lambda>v. case v of Time t \<Rightarrow> Str (strftime_hms t) | _ \<Rightarrow> v) (snd s))
      else s)"

definition nulls_pass :: "dtype \<times> cell list \<Rightarrow> dtype \<times> cell list" where
  "nulls_pass s = (Object, map (\<lambda>v. if is_null v then PyNone else v) (snd s))"

text \<open>The cells of the \<open>i\<close>-th column.\<close>

definition column_at :: "dataframe \<Rightarrow> nat \<Rightarrow> dtype \<times> cell list" where
  "column_at df i = (snd (columns df ! i), map (\<lambda>r. r ! i) (rows df))"

text \<open>
  \<^verbatim>\<open>_df_to_records\<close> of app.py and netlify/functions/api.py: one dictionary per row,
  from column name to the serialized cell.
\<close>

definition df_to_records :: "dataframe \<Rightarrow> (string \<times> cell) list list" where
  "df_to_records df =
     (let out = map (\<lambda>i. nulls_pass (times_pass (dates_pass (column_at df i))))
                  [0..<length (columns df)]
      in map (\<lambda>j. map (\<lambda>i. (fst (columns df ! i), snd (out ! i) ! j)) [0..<length (columns df)])
           [0..<length (rows df)])"

subsection \<open>api/index.py\<close>




section \<open>Fetching and caching\<close>

record config =
  excel_url :: string
  api_key :: string
  date_column_name :: string

definition default_config :: config where
  "default_config =
     \<lparr>excel_url = ''https://docs.google.com/spreadsheets/d/1JJFy0SjFGoJuYPSjwg-toCXbptr9v1DeiglHtv7hoAU/edit?usp=sharing'',
      api_key = ''YOUR_API_KEY'',
      date_column_name = ''Date''\<rparr>"

definition is_id_char :: "char \<Rightarrow> bool" where
  "is_id_char c = (c \<in> set (ascii_upper @ ascii_lower @ ''0123456789_-''))"

text \<open>\<^verbatim>\<open>re.search(r"/d/([a-zA-Z0-9_-]+)/", url)\<close>: the group of the leftmost match.\<close>

fun sheet_id_search :: "string \<Rightarrow> string option" where
  "sheet_id_search [] = None"
| "sheet_id_search (c # cs) =
     (if starts_with ''/d/'' (c # cs)
         \<and> takeWhile is_id_char (drop 3 (c # cs)) \<noteq> []
         \<and> starts_with ''/'' (dropWhile is_id_char (drop 3 (c # cs)))
      then Some (takeWhile is_id_char (drop 3 (c # cs)))
      else sheet_id_search cs)"

definition to_export_url :: "string \<Rightarrow> string" where
  "to_export_url url =
     (if \<not> contains ''docs.google.com/spreadsheets'' url \<or> contains ''/export'' url then url
      else case sheet_id_search url of
             Some sheet_id \<Rightarrow>
               ''https://docs.google.com/spreadsheets/d/'' @ sheet_id @ ''/export?format=xlsx''
           | None \<Rightarrow> url)"

text \<open>
  The module state: the cached table and the time of its fetch, in microseconds. The
  field \<open>net_calls\<close> is an observation added by the model: the number of HTTP requests
  issued so far.
\<close>

record cache_state =
  df_cache :: "dataframe option"
  last_fetched :: "int option"
  net_calls :: nat

definition CACHE_SECONDS :: int where
  "CACHE_SECONDS = 60"

text \<open>The attribute \<^verbatim>\<open>.seconds\<close> of a \<^verbatim>\<open>timedelta\<close> of \<open>us\<close> microseconds.\<close>

definition timedelta_seconds :: "int \<Rightarrow> int" where
  "timedelta_seconds us = (us div 1000000) mod 86400"

definition cache_hit :: "int \<Rightarrow> cache_state \<Rightarrow> dataframe option" where
  "cache_hit now st =
     (case (df_cache st, last_fetched st) of
        (Some df, Some t) \<Rightarrow>
          if timedelta_seconds (now - t) < CACHE_SECONDS then Some df else None
      | _ \<Rightarrow> None)"

text \<open>\<^verbatim>\<open>requests.get\<close> followed by \<^verbatim>\<open>raise_for_status\<close> and \<^verbatim>\<open>pd.read_excel\<close>.\<close>

definition download ::
  "library \<Rightarrow> string \<Rightarrow> (string \<times> string) list \<Rightarrow> error + dataframe" where
  "download L url headers =
     (case http_get L url headers of
        Inl e \<Rightarrow> Inl e
      | Inr (status_code, content) \<Rightarrow>
          if 400 \<le> status_code \<and> status_code < 600 then Inl (HTTPError status_code)
          else read_excel L content)"

text \<open>\<^verbatim>\<open>fetch_excel\<close> of app.py and netlify/functions/api.py, called at time \<open>now\<close>.\<close>

definition fetch_excel ::
  "library \<Rightarrow> config \<Rightarrow> int \<Rightarrow> cache_state \<Rightarrow> (error + dataframe) \<times> cache_state" where
  "fetch_excel L cfg now st =
     (case cache_hit now st of
        Some df \<Rightarrow> (Inr df, st)
      | None \<Rightarrow>
          (let headers = (if api_key cfg \<noteq> [] \<and> api_key cfg \<noteq> ''YOUR_API_KEY''
                          then [(''Authorization'', ''Bearer '' @ api_key cfg)] else []);
               resolved_url = to_export_url (excel_url cfg);
               st = st\<lparr>net_calls := Suc (net_calls st)\<rparr>
           in case download L resolved_url headers of
                Inl e \<Rightarrow> (Inl e, st)
              | Inr df \<Rightarrow>
                  (case series df (date_column_name cfg) of
                     None \<Rightarrow> (Inr df, st\<lparr>df_cache := Some df, last_fetched := Some now\<rparr>)
                   | Some s \<Rightarrow>
                       (case to_datetime_series L s of
                          Inl e \<Rightarrow> (Inl e, st)
                        | Inr s' \<Rightarrow>
                            (let df = set_column df (date_column_name cfg) s'
                             in (Inr df, st\<lparr>df_cache := Some df, last_fetched := Some now\<rparr>))))))"

subsection \<open>api/index.py\<close>

definition CACHE_DURATION :: int where
  "CACHE_DURATION = 5 * 60 * 1000000"

text \<open>\<^verbatim>\<open>s.replace(old, new)\<close> for a non-empty \<open>old\<close>.\<close>

fun replace_all :: "string \<Rightarrow> string \<Rightarrow> string \<Rightarrow> string" where
  "replace_all old new [] = []"
| "replace_all old new (c # cs) =
     (if old \<noteq> [] \<and> starts_with old (c # cs)
      then new @ replace_all old new (drop (length old - 1) cs)
      else c # replace_all old new cs)"

definition to_export_url_index :: "string \<Rightarrow> string" where
  "to_export_url_index url =
     (if contains ''google.com/spreadsheets/d/'' url \<and> contains ''/edit'' url
      then replace_all ''/edit'' ''/export?format=xlsx'' url
      else url)"

definition cache_hit_index :: "int \<Rightarrow> cache_state \<Rightarrow> dataframe option" where
  "cache_hit_index now st =
     (case (df_cache st, last_fetched st) of
        (Some df, Some t) \<Rightarrow> if now - t < CACHE_DURATION then Some df else None
      | _ \<Rightarrow> None)"

text \<open>
  \<^verbatim>\<open>fetch_excel\<close> of api/index.py: \<open>sheet_url\<close> is the environment variable
  \<^verbatim>\<open>EXCEL_SHEET_URL\<close>, \<open>now\<close> the clock at the test of the cache and \<open>now'\<close> the clock
  when the fetched table is stored.
\<close>

definition fetch_excel_index ::
  "library \<Rightarrow> string option \<Rightarrow> int \<Rightarrow> int \<Rightarrow> cache_state \<Rightarrow> (error + dataframe) \<times> cache_state" where
  "fetch_excel_index L sheet_url now now' st =
     (case cache_hit_index now st of
        Some df \<Rightarrow> (Inr df, st)
      | None \<Rightarrow>
          (case sheet_url of
             None \<Rightarrow> (Inl ValueError, st)
           | Some url \<Rightarrow>
               if url = [] then (Inl ValueError, st)
               else
                 (let export_url = to_export_url_index url;
                      st = st\<lparr>net_calls := Suc (net_calls st)\<rparr>
                  in case download L export_url [] of
                       Inl e \<Rightarrow> (Inl e, st)
                     | Inr df \<Rightarrow> (Inr df, st\<lparr>df_cache := Some df, last_fetched := Some now'\<rparr>))))"

section \<open>The endpoints of app.py\<close>

text \<open>The query parameters of a request; \<open>None\<close> is an absent parameter.\<close>

record request =
  arg_type :: "string option"
  arg_start :: "string option"
  arg_end :: "string option"
  arg_field :: "string option"
  arg_q :: "string option"

text \<open>A response: the payload, status 400, or status 500 with the exception.\<close>

datatype 'a outcome = Ok 'a | BadRequest | ServerError error

definition str_or_empty :: "string option \<Rightarrow> string" where
  "str_or_empty s = (case s of None \<Rightarrow> [] | Some x \<Rightarrow> x)"

text \<open>The dates of the request: \<open>start\<close> and \<open>end\<close> when both are given, the preset otherwise.\<close>

definition requested_range ::
  "library \<Rightarrow> date \<Rightarrow> request \<Rightarrow> (date option \<times> date option) outcome" where
  "requested_range L today req =
     (let filter_type = lower (str_or_empty (arg_type req))
      in if truthy (arg_start req) \<and> truthy (arg_end req) then
           (case strptime L (str_or_empty (arg_start req)) of
              None \<Rightarrow> BadRequest
            | Some start_date \<Rightarrow>
                (case strptime L (str_or_empty (arg_end req)) of
                   None \<Rightarrow> BadRequest
                 | Some end_date \<Rightarrow> Ok (Some start_date, Some end_date)))
         else if filter_type \<noteq> [] then
           (case get_range today filter_type of
              Inl e \<Rightarrow> ServerError e
            | Inr r \<Rightarrow> Ok r)
         else Ok (None, None))"

text \<open>The table after \<^verbatim>\<open>if start_date and end_date: out = filter_df(out, ...)\<close>.\<close>

definition date_stage ::
  "library \<Rightarrow> config \<Rightarrow> date \<Rightarrow> request \<Rightarrow> dataframe \<Rightarrow> dataframe outcome" where
  "date_stage L cfg today req out =
     (case requested_range L today req of
        Ok r \<Rightarrow>
          (case r of
             (Some start_date, Some end_date) \<Rightarrow>
               Ok (fst (filter_df L (date_column_name cfg) out (Some start_date) (Some end_date)))
           | _ \<Rightarrow> Ok out)
      | BadRequest \<Rightarrow> BadRequest
      | ServerError e \<Rightarrow> ServerError e)"

text \<open>\<^verbatim>\<open>out[out[c].astype(str).str.lower() == query.lower()]\<close>\<close>

definition field_equals :: "library \<Rightarrow> dataframe \<Rightarrow> string \<Rightarrow> string \<Rightarrow> error + dataframe" where
  "field_equals L out c query =
     (case series out c of
        None \<Rightarrow> Inl KeyError
      | Some s \<Rightarrow>
          Inr (select_rows (map (\<lambda>v. lower (astype_str L (fst s) v) = lower query) (snd s)) out))"

text \<open>The field filter of \<^verbatim>\<open>api_filter\<close>.\<close>

definition field_stage_filter :: "library \<Rightarrow> request \<Rightarrow> dataframe \<Rightarrow> error + dataframe" where
  "field_stage_filter L req out =
     (if truthy (arg_field req) \<and> truthy (arg_q req) then
        (let field = str_or_empty (arg_field req);
             query = str_or_empty (arg_q req);
             actual_field_name = find (\<lambda>col_name. lower col_name = lower field) (column_names out)
         in if truthy actual_field_name
            then field_equals L out (str_or_empty actual_field_name) query
            else Inr out)
      else Inr out)"

definition known_map :: "(string \<times> string) list" where
  "known_map = [(''bd'', ''BD''), (''city'', ''City''), (''hospital'', ''Hospital''),
                (''state'', ''State'')]"

text \<open>\<^verbatim>\<open>{c.lower(): c for c in out.columns}\<close>\<close>

definition columns_lower :: "dataframe \<Rightarrow> (string \<times> string) list" where
  "columns_lower out = foldl (\<lambda>d c. dict_set d (lower c) c) [] (column_names out)"

text \<open>The field filter of \<^verbatim>\<open>api_counts\<close>.\<close>

definition field_stage_counts :: "library \<Rightarrow> request \<Rightarrow> dataframe \<Rightarrow> error + dataframe" where
  "field_stage_counts L req out =
     (if truthy (arg_field req) \<and> truthy (arg_q req) then
        (let field = str_or_empty (arg_field req);
             query = str_or_empty (arg_q req);
             df_columns_lower = columns_lower out;
             field_lower = lower field;
             target_column =
               (case map_of known_map field_lower of
                  Some mapped \<Rightarrow>
                    map_option snd
                      (find (\<lambda>(col_lower, col_original). contains (lower mapped) col_lower)
                         df_columns_lower)
                | None \<Rightarrow> map_of df_columns_lower field_lower)
         in if truthy target_column then
              if \<not> (lower field = ''bd'' \<and> lower query = ''all_bd'')
              then field_equals L out (str_or_empty target_column) query
              else Inr out
            else Inr out)
      else Inr out)"

text \<open>The table \<^verbatim>\<open>api_filter\<close> counts and serializes, from the fetched table.\<close>

definition api_filter_table ::
  "library \<Rightarrow> config \<Rightarrow> date \<Rightarrow> request \<Rightarrow> dataframe \<Rightarrow> dataframe outcome" where
  "api_filter_table L cfg today req df =
     (case date_stage L cfg today req df of
        Ok out \<Rightarrow>
          (case field_stage_filter L req out of Inl e \<Rightarrow> ServerError e | Inr out \<Rightarrow> Ok out)
      | BadRequest \<Rightarrow> BadRequest
      | ServerError e \<Rightarrow> ServerError e)"

text \<open>The table \<^verbatim>\<open>api_counts\<close> counts.\<close>

definition api_counts_table ::
  "library \<Rightarrow> config \<Rightarrow> date \<Rightarrow> request \<Rightarrow> dataframe \<Rightarrow> dataframe outcome" where
  "api_counts_table L cfg today req df =
     (case date_stage L cfg today req df of
        Ok out \<Rightarrow>
          (case field_stage_counts L req out of Inl e \<Rightarrow> ServerError e | Inr out \<Rightarrow> Ok out)
      | BadRequest \<Rightarrow> BadRequest
      | ServerError e \<Rightarrow> ServerError e)"

text \<open>
  \<^verbatim>\<open>/api/filter\<close>: the counts and the records of the filtered table, and the module
  state after the request.
\<close>

definition api_filter ::
  "library \<Rightarrow> config \<Rightarrow> int \<Rightarrow> date \<Rightarrow> request \<Rightarrow> cache_state \<Rightarrow>
     ((string \<times> nat) list \<times> (string \<times> cell) list list) outcome \<times> cache_state" where
  "api_filter L cfg now today req st =
     (case fetch_excel L cfg now st of
        (Inl e, st') \<Rightarrow> (ServerError e, st')
      | (Inr df, st') \<Rightarrow>
          (case api_filter_table L cfg today req df of
             Ok out \<Rightarrow>
               (case calculate_counts L out of
                  Inl e \<Rightarrow> (ServerError e, st')
                | Inr filtered_counts \<Rightarrow> (Ok (filtered_counts, df_to_records out), st'))
           | BadRequest \<Rightarrow> (BadRequest, st')
           | ServerError e \<Rightarrow> (ServerError e, st')))"

text \<open>\<^verbatim>\<open>/api/counts\<close>: the counts of the filtered table.\<close>

definition api_counts ::
  "library \<Rightarrow> config \<Rightarrow> int \<Rightarrow> date \<Rightarrow> request \<Rightarrow> cache_state \<Rightarrow>
     (string \<times> nat) list outcome \<times> cache_state" where
  "api_counts L cfg now today req st =
     (case fetch_excel L cfg now st of
        (Inl e, st') \<Rightarrow> (ServerError e, st')
      | (Inr df, st') \<Rightarrow>
          (case api_counts_table L cfg today req df of
             Ok out \<Rightarrow>
               (case calculate_counts L out of
                  Inl e \<Rightarrow> (ServerError e, st')
                | Inr counts \<Rightarrow> (Ok counts, st'))
           | BadRequest \<Rightarrow> (BadRequest, st')
           | ServerError e \<Rightarrow> (ServerError e, st')))"

section \<open>A library instance\<close>

text \<open>
  An instance of the library parameters, for running the model on concrete tables: it
  reads dates written \<^verbatim>\<open>YYYY-MM-DD\<close> only, its network is unreachable, and its
  \<^verbatim>\<open>replace\<close> turns every null into \<^verbatim>\<open>None\<close>.
\<close>

definition is_digit :: "char \<Rightarrow> bool" where
  "is_digit c = (c \<in> set ''0123456789'')"

definition nat_of_digits :: "string \<Rightarrow> nat" where
  "nat_of_digits s = foldl (\<lambda>n c. 10 * n + index_of c ''0123456789'') 0 s"

definition parse_iso_date :: "string \<Rightarrow> date option" where
  "parse_iso_date s =
     (if length s = 10 \<and> list_all is_digit (take 4 s) \<and> s ! 4 = CHR ''-''
         \<and> list_all is_digit (take 2 (drop 5 s)) \<and> s ! 7 = CHR ''-''
         \<and> list_all is_digit (drop 8 s)
      then Some \<lparr>year = nat_of_digits (take 4 s), month = nat_of_digits (take 2 (drop 5 s)),
                 day = nat_of_digits (drop 8 s)\<rparr>
      else None)"

definition sample_cell_str :: "dtype \<Rightarrow> cell \<Rightarrow> string" where
  "sample_cell_str t v =
     (case v of
        Str s \<Rightarrow> s
      | Number n \<Rightarrow> (if n < 0 then ''-'' @ str_nat (nat (- n)) else str_nat (nat n))
      | Bool b \<Rightarrow> (if b then ''True'' else ''False'')
      | Stamp ts \<Rightarrow> strftime_ymd (on_date ts)
      | Time tm \<Rightarrow> strftime_hms tm
      | NaN \<Rightarrow> ''nan''
      | NaT \<Rightarrow> ''NaT''
      | PyNone \<Rightarrow> ''None'')"

definition sample_to_datetime :: "dtype \<Rightarrow> cell list \<Rightarrow> error + dtype \<times> cell list" where
  "sample_to_datetime t cs =
     Inr (Datetime64,
          map (\<lambda>v. case v of
                     Stamp ts \<Rightarrow> Stamp ts
                   | Str s \<Rightarrow>
                       (case parse_iso_date s of
                          Some d \<Rightarrow> Stamp \<lparr>on_date = d, time_ns = 0\<rparr>
                        | None \<Rightarrow> NaT)
                   | _ \<Rightarrow> NaT) cs)"

definition sample_library :: library where
  "sample_library =
     \<lparr>cell_str = sample_cell_str,
      to_datetime = sample_to_datetime,
      strptime = parse_iso_date,
      http_get = (\<lambda>url headers. Inl RequestException),
      read_excel = (\<lambda>content. Inl ExcelError),
      replace_null = (\<lambda>t v. PyNone)\<rparr>"

section \<open>Properties of the aggregator\<close>

lemma map_select:
  "map (g \<circ> snd) (filter fst (zip m xs)) = map snd (filter fst (zip m (map g xs)))"
proof (induction xs arbitrary: m)
  case Nil
  then show ?case by simp
next
  case (Cons x xs)
  then show ?case by (cases m) auto
qed

lemma series_select_rows_Some:
  "series df c = Some (t, vs) \<Longrightarrow>
   series (select_rows m df) c = Some (t, map snd (filter fst (zip m vs)))"
  by (auto simp: series_def select_rows_def column_names_def map_select split: option.splits)

lemma count_label_selected:
  "l \<in> S \<Longrightarrow>
   count_label (map f (map snd (filter fst (zip (map (\<lambda>x. f x \<in> S) xs) xs)))) l =
   count_label (map f xs) l"
  by (induction xs) (auto simp: count_label_def)

lemma count_label_series:
  "series df c = Some s \<Longrightarrow> count_label (cleaned L s) l = matching_rows L df c l"
  by (auto simp: series_def cleaned_def count_label_def matching_rows_def filter_map o_def
           split: option.splits)

lemma matching_rows_absent: "series df c = None \<Longrightarrow> matching_rows L df c l = 0"
  by (auto simp: series_def matching_rows_def split: option.splits)

lemma opd_ipd_block_result:
  "opd_ipd_block L df [(''opd_count'', 0), (''ipd_count'', 0), (''surgery_suggested'', 0),
      (''diagnostic_suggested'', 0), (''surgery_not_suggested'', 0), (''total_records'', n)] =
   [(''opd_count'', matching_rows L df ''OPD&IPD'' ''opd completed''),
    (''ipd_count'', matching_rows L df ''OPD&IPD'' ''ipd completed''),
    (''surgery_suggested'', 0), (''diagnostic_suggested'', 0), (''surgery_not_suggested'', 0),
    (''total_records'', n)]"
  by (cases "series df ''OPD&IPD''")
     (simp_all add: opd_ipd_block_def Let_def dict_set_def count_label_series matching_rows_absent)

lemma ipd_fallback_block_result:
  "ipd_fallback_block L df [(''opd_count'', a), (''ipd_count'', b), (''surgery_suggested'', 0),
      (''diagnostic_suggested'', 0), (''surgery_not_suggested'', 0), (''total_records'', n)] =
   Inr [(''opd_count'', a),
        (''ipd_count'', if b = 0 then matching_rows L df ''IPD Status'' ''completed'' else b),
        (''surgery_suggested'', 0), (''diagnostic_suggested'', 0), (''surgery_not_suggested'', 0),
        (''total_records'', n)]"
  by (cases "series df ''IPD Status''")
     (simp_all add: ipd_fallback_block_def Let_def dict_set_def dict_get_def count_label_series
        matching_rows_absent)

lemma surgery_block_result:
  "surgery_block L df [(''opd_count'', a), (''ipd_count'', b), (''surgery_suggested'', 0),
      (''diagnostic_suggested'', 0), (''surgery_not_suggested'', 0), (''total_records'', n)] =
   Inr [(''opd_count'', a), (''ipd_count'', b),
        (''surgery_suggested'', matching_rows L df '' Status'' ''surgery suggested''),
        (''diagnostic_suggested'', matching_rows L df '' Status'' ''diagnostic suggested''),
        (''surgery_not_suggested'', matching_rows L df '' Status'' ''surgery not suggested''),
        (''total_records'', n)]"
proof (cases "series df '' Status''")
  case None
  then show ?thesis by (simp add: surgery_block_def matching_rows_absent)
next
  case (Some s)
  obtain t vs where s: "s = (t, vs)" by (cases s)
  let ?f = "\<lambda>v. lower (strip (astype_str L t v))"
  let ?S = "set [''surgery suggested'', ''diagnostic suggested'']"
  let ?m = "map (\<lambda>x. x \<in> ?S) (cleaned L s)"
  have m: "?m = map (\<lambda>v. ?f v \<in> ?S) vs"
    by (simp add: cleaned_def s)
  have sel: "series (select_rows ?m df) '' Status'' = Some (t, map snd (filter fst (zip ?m vs)))"
    using Some s series_select_rows_Some by blast
  have c1: "count_label (cleaned L (t, map snd (filter fst (zip ?m vs)))) ''surgery suggested''
            = count_label (cleaned L s) ''surgery suggested''"
    using count_label_selected [where f = ?f and S = ?S and xs = vs and l = "''surgery suggested''"]
    by (simp add: cleaned_def s o_def)
  have c2: "count_label (cleaned L (t, map snd (filter fst (zip ?m vs)))) ''diagnostic suggested''
            = count_label (cleaned L s) ''diagnostic suggested''"
    using count_label_selected [where f = ?f and S = ?S and xs = vs and l = "''diagnostic suggested''"]
    by (simp add: cleaned_def s o_def)
  have "surgery_block L df [(''opd_count'', a), (''ipd_count'', b), (''surgery_suggested'', 0),
      (''diagnostic_suggested'', 0), (''surgery_not_suggested'', 0), (''total_records'', n)] =
     Inr [(''opd_count'', a), (''ipd_count'', b),
        (''surgery_suggested'', count_label (cleaned L s) ''surgery suggested''),
        (''diagnostic_suggested'', count_label (cleaned L s) ''diagnostic suggested''),
        (''surgery_not_suggested'', count_label (cleaned L s) ''surgery not suggested''),
        (''total_records'', n)]"
    unfolding surgery_block_def Some option.case Let_def sel c1 c2
    by (simp add: dict_set_def)
  then show ?thesis
    by (simp add: count_label_series [OF Some])
qed

lemma calculate_counts_result:
  "calculate_counts L df =
   Inr [(''opd_count'', matching_rows L df ''OPD&IPD'' ''opd completed''),
        (''ipd_count'',
           if matching_rows L df ''OPD&IPD'' ''ipd completed'' = 0
           then matching_rows L df ''IPD Status'' ''completed''
           else matching_rows L df ''OPD&IPD'' ''ipd completed''),
        (''surgery_suggested'', matching_rows L df '' Status'' ''surgery suggested''),
        (''diagnostic_suggested'', matching_rows L df '' Status'' ''diagnostic suggested''),
        (''surgery_not_suggested'', matching_rows L df '' Status'' ''surgery not suggested''),
        (''total_records'', length (rows df))]"
  unfolding calculate_counts_def Let_def opd_ipd_block_result ipd_fallback_block_result
  by (simp add: surgery_block_result)



lemma opd_ipd_block_result_index:
  "opd_ipd_block L df [(''opd_count'', 0), (''ipd_count'', 0), (''surgery_suggested'', 0),
      (''diagnostic_suggested'', 0), (''total_records'', n)] =
   [(''opd_count'', matching_rows L df ''OPD&IPD'' ''opd completed''),
    (''ipd_count'', matching_rows L df ''OPD&IPD'' ''ipd completed''),
    (''surgery_suggested'', 0), (''diagnostic_suggested'', 0), (''total_records'', n)]"
  by (cases "series df ''OPD&IPD''")
     (simp_all add: opd_ipd_block_def Let_def dict_set_def count_label_series matching_rows_absent)

lemma ipd_fallback_block_result_index:
  "ipd_fallback_block L df [(''opd_count'', a), (''ipd_count'', b), (''surgery_suggested'', 0),
      (''diagnostic_suggested'', 0), (''total_records'', n)] =
   Inr [(''opd_count'', a),
        (''ipd_count'', if b = 0 then matching_rows L df ''IPD Status'' ''completed'' else b),
        (''surgery_suggested'', 0), (''diagnostic_suggested'', 0), (''total_records'', n)]"
  by (cases "series df ''IPD Status''")
     (simp_all add: ipd_fallback_block_def Let_def dict_set_def dict_get_def count_label_series
        matching_rows_absent)


lemma calculate_counts_index_no_columns:
  "column_names df = [] \<Longrightarrow> calculate_counts_index L df = Inl IndexError"
  unfolding calculate_counts_index_def Let_def opd_ipd_block_result_index
    ipd_fallback_block_result_index
  by (simp add: first_column_block_def)

lemma series_of_column:
  "c \<in> set (column_names df) \<Longrightarrow> \<exists>s. series df c = Some s"
proof -
  assume "c \<in> set (column_names df)"
  then have "map_of (columns df) c \<noteq> None"
    by (simp add: column_names_def map_of_eq_None_iff)
  then show ?thesis
    by (auto simp: series_def split: option.splits)
qed

lemma find_status_col_in_columns:
  "find_status_col df = Some c \<Longrightarrow> c \<in> set (column_names df)"
  by (auto simp: find_status_col_def Let_def find_Some_iff split: if_splits)

lemma calculate_counts_netlify_result:
  "\<exists>a b u. calculate_counts_netlify L df =
      Inr [(''opd_count'', Count a), (''ipd_count'', Count b),
           (''total_records'', Count (length (rows df))),
           (''debug_info'', DebugInfo (find_status_col df) u)] \<and>
      (find_status_col df = None \<longrightarrow> a = 0 \<and> b = 0) \<and>
      (\<forall>c. find_status_col df = Some c \<and> c \<noteq> [] \<longrightarrow>
           a = matching_rows L df c ''opd completed'' \<and>
           b = matching_rows L df c ''ipd completed'')"
proof (cases "find_status_col df")
  case None
  then show ?thesis by (simp add: calculate_counts_netlify_def)
next
  case (Some c)
  then obtain s where s: "series df c = Some s"
    using find_status_col_in_columns series_of_column by blast
  with Some show ?thesis
    by (simp add: calculate_counts_netlify_def Let_def count_label_series [OF s])
qed







text \<open>
  C3. For every table, the summary of the aggregator has \<open>total_records\<close> equal to the
  number of rows of the table (app.py and netlify/functions/api.py).
\<close>

theorem total_records_is_row_count:
  "(\<exists>c. calculate_counts L df = Inr c \<and> map_of c ''total_records'' = Some (length (rows df)))
   \<and> (\<exists>c. calculate_counts_netlify L df = Inr c \<and>
          map_of c ''total_records'' = Some (Count (length (rows df))))"
proof
  show "\<exists>c. calculate_counts L df = Inr c \<and>
            map_of c ''total_records'' = Some (length (rows df))"
    by (simp add: calculate_counts_result)
next
  obtain a b u where
    "calculate_counts_netlify L df =
       Inr [(''opd_count'', Count a), (''ipd_count'', Count b),
            (''total_records'', Count (length (rows df))),
            (''debug_info'', DebugInfo (find_status_col df) u)]"
    using calculate_counts_netlify_result by blast
  then show "\<exists>c. calculate_counts_netlify L df = Inr c \<and>
          map_of c ''total_records'' = Some (Count (length (rows df)))"
    by simp
qed

theorem total_records_is_row_count_witness:
  "(\<exists>c. calculate_counts sample_library
           \<lparr>columns = [(''Name'', Object)], rows = [[Str ''a''], [Str ''b''], [PyNone]]\<rparr> = Inr c
        \<and> map_of c ''total_records'' = Some 3)
   \<and> (\<exists>c. calculate_counts_netlify sample_library
           \<lparr>columns = [(''Name'', Object)], rows = [[Str ''a''], [Str ''b''], [PyNone]]\<rparr> = Inr c
        \<and> map_of c ''total_records'' = Some (Count 3))"
  using total_records_is_row_count [of sample_library
      "\<lparr>columns = [(''Name'', Object)], rows = [[Str ''a''], [Str ''b''], [PyNone]]\<rparr>"]
  by (simp add: eval_nat_numeral)



text \<open>
  C7, as stated, fails on netlify/functions/api.py: its summary has no key
  \<open>surgery_suggested\<close> (nor \<open>diagnostic_suggested\<close>).
\<close>

theorem netlify_summary_lacks_surgery_key:
  "calculate_counts_netlify sample_library
     \<lparr>columns = [(''OPD&IPD'', Object)], rows = [[Str ''OPD Completed'']]\<rparr> =
   Inr [(''opd_count'', Count 1), (''ipd_count'', Count 0), (''total_records'', Count 1),
        (''debug_info'', DebugInfo (Some ''OPD&IPD'') [Str ''OPD Completed''])]
   \<and> map_of [(''opd_count'', Count 1), (''ipd_count'', Count 0), (''total_records'', Count 1),
        (''debug_info'', DebugInfo (Some ''OPD&IPD'') [Str ''OPD Completed''])]
        ''surgery_suggested'' = None"
  by code_simp

text \<open>
  C7, amended. For every table the aggregator returns a summary and never an error. In
  app.py the keys are opd_count, ipd_count, surgery_suggested, diagnostic_suggested,
  surgery_not_suggested and total_records; in netlify/functions/api.py they are
  opd_count, ipd_count, total_records and debug_info. A counter whose status column is
  absent is zero.
\<close>

theorem summary_keys_and_defaults:
  "(\<exists>c. calculate_counts L df = Inr c
      \<and> map fst c = [''opd_count'', ''ipd_count'', ''surgery_suggested'',
                      ''diagnostic_suggested'', ''surgery_not_suggested'', ''total_records'']
      \<and> (series df ''OPD&IPD'' = None \<longrightarrow> map_of c ''opd_count'' = Some 0)
      \<and> (series df ''OPD&IPD'' = None \<and> series df ''IPD Status'' = None
           \<longrightarrow> map_of c ''ipd_count'' = Some 0)
      \<and> (series df '' Status'' = None
           \<longrightarrow> map_of c ''surgery_suggested'' = Some 0
             \<and> map_of c ''diagnostic_suggested'' = Some 0))
   \<and> (\<exists>c. calculate_counts_netlify L df = Inr c
      \<and> map fst c = [''opd_count'', ''ipd_count'', ''total_records'', ''debug_info'']
      \<and> (find_status_col df = None
           \<longrightarrow> map_of c ''opd_count'' = Some (Count 0) \<and> map_of c ''ipd_count'' = Some (Count 0)))"
proof (intro conjI)
  show "\<exists>c. calculate_counts L df = Inr c
      \<and> map fst c = [''opd_count'', ''ipd_count'', ''surgery_suggested'',
                      ''diagnostic_suggested'', ''surgery_not_suggested'', ''total_records'']
      \<and> (series df ''OPD&IPD'' = None \<longrightarrow> map_of c ''opd_count'' = Some 0)
      \<and> (series df ''OPD&IPD'' = None \<and> series df ''IPD Status'' = None
           \<longrightarrow> map_of c ''ipd_count'' = Some 0)
      \<and> (series df '' Status'' = None
           \<longrightarrow> map_of c ''surgery_suggested'' = Some 0
             \<and> map_of c ''diagnostic_suggested'' = Some 0)"
    by (simp add: calculate_counts_result matching_rows_absent)
next
  obtain a b u where r:
    "calculate_counts_netlify L df =
       Inr [(''opd_count'', Count a), (''ipd_count'', Count b),
            (''total_records'', Count (length (rows df))),
            (''debug_info'', DebugInfo (find_status_col df) u)]"
    "find_status_col df = None \<longrightarrow> a = 0 \<and> b = 0"
    using calculate_counts_netlify_result by blast
  then show "\<exists>c. calculate_counts_netlify L df = Inr c
      \<and> map fst c = [''opd_count'', ''ipd_count'', ''total_records'', ''debug_info'']
      \<and> (find_status_col df = None
           \<longrightarrow> map_of c ''opd_count'' = Some (Count 0) \<and> map_of c ''ipd_count'' = Some (Count 0))"
    by simp
qed

theorem summary_keys_and_defaults_witness:
  "series \<lparr>columns = [(''Name'', Object)], rows = [[Str ''a'']]\<rparr> ''OPD&IPD'' = None
   \<and> series \<lparr>columns = [(''Name'', Object)], rows = [[Str ''a'']]\<rparr> ''IPD Status'' = None
   \<and> series \<lparr>columns = [(''Name'', Object)], rows = [[Str ''a'']]\<rparr> '' Status'' = None
   \<and> find_status_col \<lparr>columns = [(''Name'', Object)], rows = [[Str ''a'']]\<rparr> = None
   \<and> (\<exists>c. calculate_counts sample_library \<lparr>columns = [(''Name'', Object)], rows = [[Str ''a'']]\<rparr>
             = Inr c
          \<and> map_of c ''opd_count'' = Some 0 \<and> map_of c ''ipd_count'' = Some 0
          \<and> map_of c ''surgery_suggested'' = Some 0 \<and> map_of c ''diagnostic_suggested'' = Some 0)
   \<and> (\<exists>c. calculate_counts_netlify sample_library
             \<lparr>columns = [(''Name'', Object)], rows = [[Str ''a'']]\<rparr> = Inr c
          \<and> map_of c ''opd_count'' = Some (Count 0) \<and> map_of c ''ipd_count'' = Some (Count 0))"
proof -
  let ?df = "\<lparr>columns = [(''Name'', Object)], rows = [[Str ''a'']]\<rparr>"
  have h: "series ?df ''OPD&IPD'' = None" "series ?df ''IPD Status'' = None"
    "series ?df '' Status'' = None"
    by code_simp+
  have f: "find_status_col ?df = None"
    by code_simp
  from summary_keys_and_defaults [of sample_library ?df] h f show ?thesis
    by blast
qed

section \<open>Properties of the preset ranges\<close>

lemma get_range_unknown:
  "filter_type \<notin> set presets \<Longrightarrow> get_range today filter_type = Inr (None, None)"
  by (simp add: presets_def get_range_def)

lemma get_range_index_unknown:
  "filter_type \<notin> set presets_index \<Longrightarrow> get_range_index today filter_type = Inr (None, None)"
  by (simp add: presets_index_def get_range_index_def)

lemma requested_range_unknown:
  assumes "lower (str_or_empty (arg_type req)) \<notin> set presets"
    and "\<not> (truthy (arg_start req) \<and> truthy (arg_end req))"
  shows "requested_range L today req = Ok (None, None)"
  using assms by (auto simp: requested_range_def Let_def get_range_unknown)

text \<open>
  C10. For a filter type that is none of the preset names, \<^verbatim>\<open>get_range\<close> returns
  \<^verbatim>\<open>(None, None)\<close> (app.py and api/index.py), and a request of app.py with such a type
  and without both \<open>start\<close> and \<open>end\<close> leaves the table without date filtering.
\<close>

theorem unknown_preset_disables_date_filter:
  "(filter_type \<notin> set presets \<longrightarrow> get_range today filter_type = Inr (None, None))
   \<and> (filter_type \<notin> set presets_index \<longrightarrow>
        get_range_index today filter_type = Inr (None, None))
   \<and> (lower (str_or_empty (arg_type req)) \<notin> set presets
        \<and> \<not> (truthy (arg_start req) \<and> truthy (arg_end req))
      \<longrightarrow> date_stage L cfg today req df = Ok df)"
  by (simp add: get_range_unknown get_range_index_unknown requested_range_unknown date_stage_def)

theorem unknown_preset_disables_date_filter_witness:
  "''last_7_days'' \<notin> set presets
   \<and> get_range \<lparr>year = 2024, month = 1, day = 20\<rparr> ''last_7_days'' = Inr (None, None)
   \<and> ''last7'' \<notin> set presets_index
   \<and> get_range_index \<lparr>year = 2024, month = 1, day = 20\<rparr> ''last7'' = Inr (None, None)
   \<and> lower (str_or_empty (arg_type \<lparr>arg_type = Some ''Last_7_Days'', arg_start = None,
         arg_end = Some ''2024-01-31'', arg_field = None, arg_q = None\<rparr>)) \<notin> set presets
   \<and> date_stage sample_library default_config \<lparr>year = 2024, month = 1, day = 20\<rparr>
        \<lparr>arg_type = Some ''Last_7_Days'', arg_start = None, arg_end = Some ''2024-01-31'',
         arg_field = None, arg_q = None\<rparr>
        \<lparr>columns = [(''Date'', Datetime64)],
         rows = [[Stamp \<lparr>on_date = \<lparr>year = 2023, month = 5, day = 1\<rparr>, time_ns = 0\<rparr>]]\<rparr>
      = Ok \<lparr>columns = [(''Date'', Datetime64)],
             rows = [[Stamp \<lparr>on_date = \<lparr>year = 2023, month = 5, day = 1\<rparr>, time_ns = 0\<rparr>]]\<rparr>"
proof -
  let ?req = "\<lparr>arg_type = Some ''Last_7_Days'', arg_start = None, arg_end = Some ''2024-01-31'',
               arg_field = None, arg_q = None\<rparr>"
  have a: "''last_7_days'' \<notin> set presets" by code_simp
  have b: "''last7'' \<notin> set presets_index" by code_simp
  have c: "lower (str_or_empty (arg_type ?req)) \<notin> set presets" by code_simp
  have d: "\<not> (truthy (arg_start ?req) \<and> truthy (arg_end ?req))" by code_simp
  from a b c d
    unknown_preset_disables_date_filter [where filter_type = "''last_7_days''"
      and today = "\<lparr>year = 2024, month = 1, day = 20\<rparr>"]
    unknown_preset_disables_date_filter [where filter_type = "''last7''"
      and today = "\<lparr>year = 2024, month = 1, day = 20\<rparr>"]
    unknown_preset_disables_date_filter [where req = ?req and L = sample_library
      and cfg = default_config and today = "\<lparr>year = 2024, month = 1, day = 20\<rparr>"
      and df = "\<lparr>columns = [(''Date'', Datetime64)],
         rows = [[Stamp \<lparr>on_date = \<lparr>year = 2023, month = 5, day = 1\<rparr>, time_ns = 0\<rparr>]]\<rparr>"]
  show ?thesis by blast
qed

section \<open>Properties of the field filters\<close>

lemma field_stage_counts_all_bd:
  assumes "lower (str_or_empty (arg_field req)) = ''bd''"
    and "lower (str_or_empty (arg_q req)) = ''all_bd''"
  shows "field_stage_counts L req out = Inr out"
  using assms by (simp add: field_stage_counts_def Let_def)

lemma api_counts_table_all_bd:
  assumes "lower (str_or_empty (arg_field req)) = ''bd''"
    and "lower (str_or_empty (arg_q req)) = ''all_bd''"
  shows "api_counts_table L cfg today req df = date_stage L cfg today req df"
  using assms
  by (simp add: api_counts_table_def field_stage_counts_all_bd split: outcome.splits)

lemma api_filter_table_all_bd_example:
  "api_filter_table L cfg today
     \<lparr>arg_type = None, arg_start = None, arg_end = None, arg_field = Some ''bd'',
      arg_q = Some ''all_bd''\<rparr>
     \<lparr>columns = [(''BD'', Object)], rows = [[Str ''Alice''], [Str ''Bob'']]\<rparr>
   = Ok \<lparr>columns = [(''BD'', Object)], rows = []\<rparr>"
proof -
  have l0: "lower [] = []" by (simp add: lower_def)
  have l1: "lower ''BD'' = ''bd''" by code_simp
  have l2: "lower ''bd'' = ''bd''" by code_simp
  have l3: "lower ''all_bd'' = ''all_bd''" by code_simp
  have l4: "lower ''Alice'' = ''alice''" by code_simp
  have l5: "lower ''Bob'' = ''bob''" by code_simp
  show ?thesis
    by (simp add: api_filter_table_def date_stage_def requested_range_def truthy_def
          str_or_empty_def field_stage_filter_def Let_def column_names_def field_equals_def
          series_def select_rows_def astype_str_def l0 l1 l2 l3 l4 l5)
qed

section \<open>Properties of the cache\<close>

lemma fetch_excel_hit:
  assumes "df_cache st = Some df" and "last_fetched st = Some t"
    and "0 \<le> now - t" and "now - t < CACHE_SECONDS * 1000000"
  shows "fetch_excel L cfg now st = (Inr df, st)"
proof -
  have "(now - t) div 1000000 < 60" "0 \<le> (now - t) div 1000000"
    using assms(3,4) by (auto simp: CACHE_SECONDS_def)
  then have "timedelta_seconds (now - t) < CACHE_SECONDS"
    by (simp add: timedelta_seconds_def CACHE_SECONDS_def)
  then show ?thesis
    using assms(1,2) by (simp add: fetch_excel_def cache_hit_def)
qed

lemma fetch_excel_index_hit:
  assumes "df_cache st = Some df" and "last_fetched st = Some t"
    and "now - t < CACHE_DURATION"
  shows "fetch_excel_index L url now now' st = (Inr df, st)"
  using assms by (simp add: fetch_excel_index_def cache_hit_index_def)

lemma fetch_excel_index_expired:
  assumes "df_cache st = Some df" and "last_fetched st = Some t"
    and "CACHE_DURATION \<le> now - t" and "url \<noteq> []"
  shows "net_calls (snd (fetch_excel_index L (Some url) now now' st)) = Suc (net_calls st)"
    and "download L (to_export_url_index url) [] = Inr df' \<Longrightarrow>
         fetch_excel_index L (Some url) now now' st =
           (Inr df', st\<lparr>net_calls := Suc (net_calls st), df_cache := Some df',
                         last_fetched := Some now'\<rparr>)"
  using assms
  by (auto simp: fetch_excel_index_def cache_hit_index_def Let_def split: sum.splits)

text \<open>
  C1 fails on app.py: a table fetched at time 0 is returned from the cache, with no HTTP
  request, by a call one day and five seconds later, although the cache lasts a minute.
  At that age api/index.py, whose cache lasts five minutes, issues a request.
\<close>

theorem stale_cache_served_after_a_day:
  "fetch_excel L cfg (86405 * 1000000) \<lparr>df_cache = Some df, last_fetched = Some 0, net_calls = n\<rparr>
   = (Inr df, \<lparr>df_cache = Some df, last_fetched = Some 0, net_calls = n\<rparr>)
   \<and> net_calls (snd (fetch_excel_index L (Some ''https://example.org/sheet'') (86405 * 1000000) now'
         \<lparr>df_cache = Some df, last_fetched = Some 0, net_calls = n\<rparr>)) = Suc n"
proof
  show "fetch_excel L cfg (86405 * 1000000)
          \<lparr>df_cache = Some df, last_fetched = Some 0, net_calls = n\<rparr>
        = (Inr df, \<lparr>df_cache = Some df, last_fetched = Some 0, net_calls = n\<rparr>)"
    by (simp add: fetch_excel_def cache_hit_def timedelta_seconds_def CACHE_SECONDS_def)
next
  show "net_calls (snd (fetch_excel_index L (Some ''https://example.org/sheet'') (86405 * 1000000)
          now' \<lparr>df_cache = Some df, last_fetched = Some 0, net_calls = n\<rparr>)) = Suc n"
    using fetch_excel_index_expired(1) [where st = "\<lparr>df_cache = Some df, last_fetched = Some 0,
        net_calls = n\<rparr>" and df = df and t = 0 and now = "86405 * 1000000"
        and url = "''https://example.org/sheet''" and L = L and now' = now']
    by (simp add: CACHE_DURATION_def)
qed

text \<open>
  C5. When \<^verbatim>\<open>fetch_excel\<close> raises, the cached table and the time of its fetch are what
  they were before the call (app.py and api/index.py).
\<close>

theorem failed_fetch_keeps_cache:
  "(fst (fetch_excel L cfg now st) = Inl e \<longrightarrow>
      df_cache (snd (fetch_excel L cfg now st)) = df_cache st
      \<and> last_fetched (snd (fetch_excel L cfg now st)) = last_fetched st)
   \<and> (fst (fetch_excel_index L url now now' st) = Inl e \<longrightarrow>
      df_cache (snd (fetch_excel_index L url now now' st)) = df_cache st
      \<and> last_fetched (snd (fetch_excel_index L url now now' st)) = last_fetched st)"
proof (intro conjI impI)
  assume "fst (fetch_excel L cfg now st) = Inl e"
  then show "df_cache (snd (fetch_excel L cfg now st)) = df_cache st"
    and "last_fetched (snd (fetch_excel L cfg now st)) = last_fetched st"
    by (auto simp: fetch_excel_def Let_def split: option.splits sum.splits)
next
  assume "fst (fetch_excel_index L url now now' st) = Inl e"
  then show "df_cache (snd (fetch_excel_index L url now now' st)) = df_cache st"
    and "last_fetched (snd (fetch_excel_index L url now now' st)) = last_fetched st"
    by (auto simp: fetch_excel_index_def Let_def split: option.splits sum.splits if_splits)
qed

theorem failed_fetch_keeps_cache_witness:
  "fst (fetch_excel sample_library default_config 61000000
          \<lparr>df_cache = Some \<lparr>columns = [(''Date'', Datetime64)], rows = []\<rparr>,
           last_fetched = Some 0, net_calls = 0\<rparr>) = Inl RequestException
   \<and> df_cache (snd (fetch_excel sample_library default_config 61000000
          \<lparr>df_cache = Some \<lparr>columns = [(''Date'', Datetime64)], rows = []\<rparr>,
           last_fetched = Some 0, net_calls = 0\<rparr>))
       = Some \<lparr>columns = [(''Date'', Datetime64)], rows = []\<rparr>
   \<and> last_fetched (snd (fetch_excel sample_library default_config 61000000
          \<lparr>df_cache = Some \<lparr>columns = [(''Date'', Datetime64)], rows = []\<rparr>,
           last_fetched = Some 0, net_calls = 0\<rparr>)) = Some 0
   \<and> fst (fetch_excel_index sample_library (Some ''https://example.org/sheet'') 400000000 400000001
          \<lparr>df_cache = Some \<lparr>columns = [(''Date'', Datetime64)], rows = []\<rparr>,
           last_fetched = Some 0, net_calls = 0\<rparr>) = Inl RequestException
   \<and> df_cache (snd (fetch_excel_index sample_library (Some ''https://example.org/sheet'')
          400000000 400000001
          \<lparr>df_cache = Some \<lparr>columns = [(''Date'', Datetime64)], rows = []\<rparr>,
           last_fetched = Some 0, net_calls = 0\<rparr>))
       = Some \<lparr>columns = [(''Date'', Datetime64)], rows = []\<rparr>
   \<and> last_fetched (snd (fetch_excel_index sample_library (Some ''https://example.org/sheet'')
          400000000 400000001
          \<lparr>df_cache = Some \<lparr>columns = [(''Date'', Datetime64)], rows = []\<rparr>,
           last_fetched = Some 0, net_calls = 0\<rparr>)) = Some 0"
proof -
  let ?st = "\<lparr>df_cache = Some \<lparr>columns = [(''Date'', Datetime64)], rows = []\<rparr>,
              last_fetched = Some 0, net_calls = 0\<rparr>"
  have a: "fst (fetch_excel sample_library default_config 61000000 ?st) = Inl RequestException"
    by code_simp
  have b: "fst (fetch_excel_index sample_library (Some ''https://example.org/sheet'')
                  400000000 400000001 ?st) = Inl RequestException"
    by code_simp
  from a b
    failed_fetch_keeps_cache [where L = sample_library and cfg = default_config
      and now = 61000000 and st = ?st and e = RequestException]
    failed_fetch_keeps_cache [where L = sample_library
      and url = "Some ''https://example.org/sheet''" and now = 400000000 and now' = 400000001
      and st = ?st and e = RequestException]
  show ?thesis by simp
qed

section \<open>Properties of the record serializer\<close>




lemma passes_length:
  "length (snd (nulls_pass (times_pass (dates_pass s)))) = length (snd s)"
  by (simp add: nulls_pass_def times_pass_def dates_pass_def)













section \<open>Properties of the date filter\<close>

lemma select_by_mask: "map snd (filter fst (zip (map P xs) xs)) = filter P xs"
  by (induction xs) auto

lemma index_of_less: "c \<in> set xs \<Longrightarrow> index_of c xs < length xs"
  by (induction xs) auto

lemma index_of_other: "c \<in> set xs \<Longrightarrow> c' \<noteq> c \<Longrightarrow> index_of c' xs \<noteq> index_of c xs"
  by (induction xs) auto

lemma map_of_at_index:
  "map_of cols c = Some t \<Longrightarrow> cols ! index_of c (map fst cols) = (c, t)"
  by (induction cols) (auto split: if_splits)

lemma map_of_in_names: "map_of cols c = Some t \<Longrightarrow> c \<in> set (map fst cols)"
  by (induction cols) (auto split: if_splits)

lemma map_of_update_same:
  "map_of cols c = Some t \<Longrightarrow> map_of (cols[index_of c (map fst cols) := (c, t')]) c = Some t'"
  by (induction cols) (auto split: if_splits)

lemma map_of_update_other:
  "map_of cols c = Some t \<Longrightarrow> c' \<noteq> c \<Longrightarrow>
   map_of (cols[index_of c (map fst cols) := (c, t')]) c' = map_of cols c'"
  by (induction cols) (auto split: if_splits)

lemma names_update:
  "map_of cols c = Some t \<Longrightarrow> map fst (cols[index_of c (map fst cols) := (c, t')]) = map fst cols"
  by (induction cols) (auto split: if_splits)

lemma rows_set_column:
  "rows (set_column df c s) =
     map (\<lambda>j. (rows df ! j)[index_of c (column_names df) :=
                  (if j < length (snd s) then snd s ! j else NaN)])
       [0..<length (rows df)]"
proof (rule nth_equalityI)
  show "length (rows (set_column df c s)) =
        length (map (\<lambda>j. (rows df ! j)[index_of c (column_names df) :=
                  (if j < length (snd s) then snd s ! j else NaN)]) [0..<length (rows df)])"
    by (simp add: set_column_def Let_def)
next
  fix j
  assume "j < length (rows (set_column df c s))"
  then have "j < length (rows df)"
    by (simp add: set_column_def Let_def)
  then show "rows (set_column df c s) ! j =
        map (\<lambda>j. (rows df ! j)[index_of c (column_names df) :=
                  (if j < length (snd s) then snd s ! j else NaN)]) [0..<length (rows df)] ! j"
    by (simp add: set_column_def Let_def nth_enumerate_eq)
qed

lemma column_names_set_column:
  "map_of (columns df) c = Some t \<Longrightarrow> column_names (set_column df c s) = column_names df"
  by (simp add: set_column_def Let_def column_names_def names_update)

lemma length_rows_set_column: "length (rows (set_column df c s)) = length (rows df)"
  by (simp add: rows_set_column)

lemma series_set_column_same:
  assumes "map_of (columns df) c = Some t"
  shows "series (set_column df c s) c =
           Some (fst s, map (\<lambda>r. r ! index_of c (column_names df)) (rows (set_column df c s)))"
proof -
  have "map_of (columns (set_column df c s)) c = Some (fst s)"
    using assms by (simp add: set_column_def Let_def column_names_def map_of_update_same)
  then show ?thesis
    by (simp add: series_def column_names_set_column [OF assms])
qed

lemma series_set_column_other:
  assumes "map_of (columns df) c = Some t" and "c' \<noteq> c"
  shows "series (set_column df c s) c' = series df c'"
proof -
  have m: "map_of (columns (set_column df c s)) c' = map_of (columns df) c'"
    using assms by (simp add: set_column_def Let_def column_names_def map_of_update_other)
  have "c \<in> set (column_names df)"
    using map_of_in_names [OF assms(1)] by (simp add: column_names_def)
  then have i: "index_of c' (column_names df) \<noteq> index_of c (column_names df)"
    using assms(2) by (rule index_of_other)
  have r: "map (\<lambda>r. r ! index_of c' (column_names df)) (rows (set_column df c s)) =
        map (\<lambda>r. r ! index_of c' (column_names df)) (rows df)"
    using i i [symmetric] by (intro nth_equalityI) (simp_all add: rows_set_column)
  have cn: "column_names (set_column df c s) = column_names df"
    by (rule column_names_set_column [OF assms(1)])
  show ?thesis
    by (simp only: series_def cn m r)
qed

lemma set_column_same_series:
  assumes "series df c = Some s"
  shows "set_column df c s = df"
proof -
  from assms obtain t where t: "map_of (columns df) c = Some t"
    and s: "s = (t, map (\<lambda>r. r ! index_of c (column_names df)) (rows df))"
    by (auto simp: series_def split: option.splits)
  have c: "(columns df)[index_of c (column_names df) := (c, t)] = columns df"
    using map_of_at_index [OF t] list_update_id [of "columns df" "index_of c (column_names df)"]
    by (simp add: column_names_def)
  have r: "rows (set_column df c s) = rows df"
    by (rule nth_equalityI) (simp_all add: rows_set_column s)
  have "columns (set_column df c s) = columns df"
    using c by (simp add: set_column_def Let_def s)
  with r show ?thesis
    by (cases df) (simp add: set_column_def Let_def)
qed

lemma mask_and_select_datetime:
  assumes "series df c = Some (t, vs)" and "dt_accessible t"
  shows "mask_and_select df c s e =
           Inr (df\<lparr>rows := filter (\<lambda>r. in_range s e (r ! index_of c (column_names df))) (rows df)\<rparr>)"
proof -
  from assms(1) have "vs = map (\<lambda>r. r ! index_of c (column_names df)) (rows df)"
    by (auto simp: series_def split: option.splits)
  then have "map (in_range s e) vs =
               map (\<lambda>r. in_range s e (r ! index_of c (column_names df))) (rows df)"
    by simp
  then show ?thesis
    using assms by (simp add: mask_and_select_def select_rows_def select_by_mask)
qed

lemma dt_accessible_not_object: "dt_accessible t \<Longrightarrow> t \<noteq> Object"
  by (auto simp: dt_accessible_def)

lemma filter_df_datetime:
  assumes "series df dc = Some (t, vs)" and "dt_accessible t"
  shows "filter_df L dc df (Some s) (Some e) =
           (df\<lparr>rows := filter (\<lambda>r. in_range s e (r ! index_of dc (column_names df))) (rows df)\<rparr>,
            df)"
  using assms dt_accessible_not_object [OF assms(2)]
  by (simp add: filter_df_def mask_and_select_datetime [OF assms])

lemma filter_df_object:
  assumes "series df dc = Some (Object, vs)" and "to_datetime L Object vs = Inr s'"
    and "dt_accessible (fst s')"
  shows "filter_df L dc df (Some s) (Some e) =
           ((set_column df dc s')\<lparr>rows :=
               filter (\<lambda>r. in_range s e (r ! index_of dc (column_names df)))
                 (rows (set_column df dc s'))\<rparr>,
            set_column df dc s')"
proof -
  from assms(1) have t: "map_of (columns df) dc = Some Object"
    by (auto simp: series_def split: option.splits)
  have ser: "series (set_column df dc s') dc =
        Some (fst s', map (\<lambda>r. r ! index_of dc (column_names df)) (rows (set_column df dc s')))"
    by (rule series_set_column_same [OF t])
  have "mask_and_select (set_column df dc s') dc s e =
          Inr ((set_column df dc s')\<lparr>rows :=
               filter (\<lambda>r. in_range s e (r ! index_of dc (column_names df)))
                 (rows (set_column df dc s'))\<rparr>)"
    using mask_and_select_datetime [OF ser assms(3)]
    by (simp add: column_names_set_column [OF t])
  then show ?thesis
    using assms(1,2) by (simp add: filter_df_def to_datetime_series_def Let_def)
qed

lemma find_date_col_nonempty:
  "find (\<lambda>c. contains ''date'' (lower c)) xs = Some c \<Longrightarrow> c \<noteq> []"
  by (auto simp: find_Some_iff lower_def)

lemma filter_df_index_datetime:
  assumes "find (\<lambda>c. contains ''date'' (lower c)) (column_names df) = Some c"
    and "series df c = Some (Datetime64, vs)"
  shows "filter_df_index L df (Some s) (Some e) =
           (Inr (df\<lparr>rows := filter (\<lambda>r. in_range s e (r ! index_of c (column_names df)))
                                (rows df)\<rparr>), df)"
proof -
  have d: "dt_accessible Datetime64" by (simp add: dt_accessible_def)
  show ?thesis
    using assms find_date_col_nonempty [OF assms(1)]
    by (simp add: filter_df_index_def Let_def to_datetime_series_def
          set_column_same_series [OF assms(2)] mask_and_select_datetime [OF assms(2) d])
qed

lemma in_range_null: "cell_date v = None \<Longrightarrow> \<not> in_range s e v"
  by (simp add: in_range_def)

lemma in_range_stamp:
  "in_range s e (Stamp ts) = (date_le s (on_date ts) \<and> date_le (on_date ts) e)"
  by (simp add: in_range_def cell_date_def)

lemma filter_df_snd_cases:
  "snd (filter_df L dc df start end) = df \<or>
   (\<exists>s' t. map_of (columns df) dc = Some t \<and> snd (filter_df L dc df start end) = set_column df dc s')"
  by (auto simp: filter_df_def Let_def series_def split: option.splits sum.splits prod.splits)

lemma filter_df_snd_not_object:
  "series df dc = Some (t, vs) \<Longrightarrow> t \<noteq> Object \<Longrightarrow> snd (filter_df L dc df start end) = df"
  by (auto simp: filter_df_def Let_def split: option.splits sum.splits)

lemma filter_df_snd_no_filter:
  "series df dc = None \<or> start = None \<or> end = None \<Longrightarrow> snd (filter_df L dc df start end) = df"
  by (auto simp: filter_df_def Let_def split: option.splits sum.splits)

lemma filter_df_index_snd_datetime:
  assumes "find (\<lambda>c. contains ''date'' (lower c)) (column_names df) = Some c"
    and "series df c = Some (Datetime64, vs)"
  shows "snd (filter_df_index L df start end) = df"
proof (cases "start = None \<or> end = None")
  case True
  then show ?thesis
    by (auto simp: filter_df_index_def split: option.splits)
next
  case False
  then obtain s e where "start = Some s" "end = Some e" by auto
  then show ?thesis
    by (simp add: filter_df_index_datetime [OF assms])
qed


lemma filter_df_coerced_column:
  assumes "map_of (columns df) dc = Some t" and "dt_accessible (fst s')"
  shows "filter_df L dc (set_column df dc s') (Some s) (Some e) =
           ((set_column df dc s')\<lparr>rows :=
               filter (\<lambda>r. in_range s e (r ! index_of dc (column_names df)))
                 (rows (set_column df dc s'))\<rparr>,
            set_column df dc s')"
  using filter_df_datetime [OF series_set_column_same [OF assms(1)] assms(2)]
  by (simp add: column_names_set_column [OF assms(1)])

lemma filter_df_index_coerced:
  assumes "find (\<lambda>c. contains ''date'' (lower c)) (column_names df) = Some c"
    and "series df c = Some col" and "to_datetime_series L col = Inr s'"
    and "dt_accessible (fst s')"
  shows "filter_df_index L df (Some s) (Some e) =
           (Inr ((set_column df c s')\<lparr>rows :=
                    filter (\<lambda>r. in_range s e (r ! index_of c (column_names df)))
                      (rows (set_column df c s'))\<rparr>),
            set_column df c s')"
proof -
  from assms(2) obtain t where t: "map_of (columns df) c = Some t"
    by (auto simp: series_def split: option.splits)
  have "mask_and_select (set_column df c s') c s e =
          Inr ((set_column df c s')\<lparr>rows :=
               filter (\<lambda>r. in_range s e (r ! index_of c (column_names df)))
                 (rows (set_column df c s'))\<rparr>)"
    using mask_and_select_datetime [OF series_set_column_same [OF t] assms(4)]
    by (simp add: column_names_set_column [OF t])
  then show ?thesis
    using assms(1,2,3) find_date_col_nonempty [OF assms(1)]
    by (simp add: filter_df_index_def Let_def)
qed

lemma filter_df_snd_object_coerced:
  assumes "series df dc = Some (Object, vs)" and "to_datetime L Object vs = Inr s'"
  shows "snd (filter_df L dc df (Some s) (Some e)) = set_column df dc s'"
  using assms
  by (simp add: filter_df_def to_datetime_series_def Let_def split: sum.splits)

lemma filter_df_snd_object_raises:
  assumes "series df dc = Some (Object, vs)" and "to_datetime L Object vs = Inl err"
  shows "snd (filter_df L dc df lo hi) = df"
  using assms
  by (auto simp: filter_df_def to_datetime_series_def Let_def split: option.splits)

lemma filter_df_index_snd_no_filter:
  assumes "lo = None \<or> hi = None
           \<or> find (\<lambda>c. contains ''date'' (lower c)) (column_names df) = None"
  shows "snd (filter_df_index L df lo hi) = df"
  using assms by (auto simp: filter_df_index_def Let_def split: option.splits)

lemma filter_df_index_snd_raises:
  assumes "find (\<lambda>c. contains ''date'' (lower c)) (column_names df) = Some c"
    and "series df c = Some col" and "to_datetime_series L col = Inl err"
  shows "snd (filter_df_index L df lo hi) = df"
  using assms by (auto simp: filter_df_index_def Let_def split: option.splits)

lemma filter_df_index_snd_coerced:
  assumes "find (\<lambda>c. contains ''date'' (lower c)) (column_names df) = Some c"
    and "series df c = Some col" and "to_datetime_series L col = Inr s'"
  shows "snd (filter_df_index L df (Some s) (Some e)) = set_column df c s'"
  using assms find_date_col_nonempty [OF assms(1)]
  by (simp add: filter_df_index_def Let_def)

lemma filter_df_index_snd_cases:
  "snd (filter_df_index L df lo hi) = df \<or>
   (\<exists>c s' t. find (\<lambda>c. contains ''date'' (lower c)) (column_names df) = Some c
      \<and> map_of (columns df) c = Some t
      \<and> snd (filter_df_index L df lo hi) = set_column df c s')"
  by (auto simp: filter_df_index_def Let_def series_def split: option.splits sum.splits)

lemma series_set_column_assigned:
  assumes "wf_df df" and "map_of (columns df) c = Some t"
    and "length (snd s') = length (rows df)"
  shows "series (set_column df c s') c = Some s'"
proof -
  have "c \<in> set (column_names df)"
    using map_of_in_names [OF assms(2)] by (simp add: column_names_def)
  then have i: "index_of c (column_names df) < length (columns df)"
    using index_of_less [of c "column_names df"] by (simp add: column_names_def)
  have len: "\<And>j. j < length (rows df) \<Longrightarrow> length (rows df ! j) = length (columns df)"
    using assms(1) by (simp add: wf_df_def list_all_length)
  have "map (\<lambda>r. r ! index_of c (column_names df)) (rows (set_column df c s')) = snd s'"
    using assms(3) i len by (intro nth_equalityI) (simp_all add: rows_set_column)
  then show ?thesis
    using series_set_column_same [OF assms(2), of s'] by simp
qed

lemma select_rows_sub:
  "columns (select_rows m df) = columns df \<and> set (rows (select_rows m df)) \<subseteq> set (rows df)"
  by (auto simp: select_rows_def dest: set_zip_rightD)

lemma mask_and_select_sub:
  assumes "mask_and_select df c s e = Inr out"
  shows "columns out = columns df \<and> set (rows out) \<subseteq> set (rows df)"
  using assms select_rows_sub [of "map (in_range s e) (snd (the (series df c)))" df]
  by (auto simp: mask_and_select_def split: option.splits if_splits)

lemma filter_df_returns_selection:
  "columns (fst (filter_df L dc df lo hi)) = columns (snd (filter_df L dc df lo hi))
   \<and> set (rows (fst (filter_df L dc df lo hi))) \<subseteq> set (rows (snd (filter_df L dc df lo hi)))"
proof -
  have "filter_df L dc df lo hi = (snd (filter_df L dc df lo hi), snd (filter_df L dc df lo hi))
        \<or> (\<exists>c s e. mask_and_select (snd (filter_df L dc df lo hi)) c s e
                     = Inr (fst (filter_df L dc df lo hi)))"
    by (auto simp: filter_df_def Let_def split: option.splits sum.splits)
  then show ?thesis
    using mask_and_select_sub by (metis fst_conv order_refl)
qed

lemma filter_df_index_returns_selection:
  assumes "fst (filter_df_index L df lo hi) = Inr out"
  shows "columns out = columns (snd (filter_df_index L df lo hi))
         \<and> set (rows out) \<subseteq> set (rows (snd (filter_df_index L df lo hi)))"
proof -
  have "out = snd (filter_df_index L df lo hi)
        \<or> (\<exists>c s e. mask_and_select (snd (filter_df_index L df lo hi)) c s e = Inr out)"
    using assms
    by (auto simp: filter_df_index_def Let_def split: option.splits sum.splits if_splits)
  then show ?thesis
    using mask_and_select_sub by (metis order_refl)
qed

text \<open>
  C4. On a date-bearing column \<^verbatim>\<open>filter_df\<close> returns exactly the rows whose cell in that
  column is a timestamp with its date in \<open>[start, end]\<close>, in table order; a null date is
  never in range and the time of day of a timestamp is ignored. For app.py the column is
  datetime-typed, which is how \<^verbatim>\<open>fetch_excel\<close> leaves the \<open>Date\<close> column of every table
  it caches whatever its dtype in the sheet, or object-typed and coerced by the filter.
  For api/index.py it is the first column whose name contains \<open>date\<close>, of any dtype,
  as the filter coerces it.
\<close>

theorem filter_df_retains_rows_in_range:
  "(series df dc = Some (t, vs) \<and> dt_accessible t \<longrightarrow>
      fst (filter_df L dc df (Some s) (Some e)) =
        df\<lparr>rows := filter (\<lambda>r. in_range s e (r ! index_of dc (column_names df))) (rows df)\<rparr>)
   \<and> (series df dc = Some (Object, vs) \<and> to_datetime L Object vs = Inr s' \<and> dt_accessible (fst s')
      \<longrightarrow> fst (filter_df L dc df (Some s) (Some e)) =
        (set_column df dc s')\<lparr>rows :=
           filter (\<lambda>r. in_range s e (r ! index_of dc (column_names df)))
             (rows (set_column df dc s'))\<rparr>)
   \<and> (map_of (columns df) dc = Some t \<and> dt_accessible (fst s')
      \<longrightarrow> fst (filter_df L dc (set_column df dc s') (Some s) (Some e)) =
        (set_column df dc s')\<lparr>rows :=
           filter (\<lambda>r. in_range s e (r ! index_of dc (column_names df)))
             (rows (set_column df dc s'))\<rparr>)
   \<and> (find (\<lambda>c. contains ''date'' (lower c)) (column_names df) = Some c
        \<and> series df c = Some col \<and> to_datetime_series L col = Inr s' \<and> dt_accessible (fst s')
      \<longrightarrow> fst (filter_df_index L df (Some s) (Some e)) =
        Inr ((set_column df c s')\<lparr>rows :=
           filter (\<lambda>r. in_range s e (r ! index_of c (column_names df)))
             (rows (set_column df c s'))\<rparr>))
   \<and> (cell_date v = None \<longrightarrow> \<not> in_range s e v)
   \<and> in_range s e (Stamp ts) = (date_le s (on_date ts) \<and> date_le (on_date ts) e)"
  by (simp add: filter_df_datetime filter_df_object filter_df_coerced_column
        filter_df_index_coerced in_range_null in_range_stamp)

theorem filter_df_retains_rows_in_range_witness:
  "fst (filter_df sample_library ''Date''
          \<lparr>columns = [(''Date'', Datetime64)],
           rows = [[Stamp \<lparr>on_date = \<lparr>year = 2024, month = 1, day = 15\<rparr>, time_ns = 0\<rparr>],
                   [Stamp \<lparr>on_date = \<lparr>year = 2024, month = 2, day = 1\<rparr>, time_ns = 0\<rparr>]]\<rparr>
          (Some \<lparr>year = 2024, month = 1, day = 1\<rparr>) (Some \<lparr>year = 2024, month = 1, day = 31\<rparr>))
   = \<lparr>columns = [(''Date'', Datetime64)],
      rows = [[Stamp \<lparr>on_date = \<lparr>year = 2024, month = 1, day = 15\<rparr>, time_ns = 0\<rparr>]]\<rparr>
   \<and> fst (filter_df_index sample_library
          \<lparr>columns = [(''Date'', Datetime64)],
           rows = [[Stamp \<lparr>on_date = \<lparr>year = 2024, month = 1, day = 15\<rparr>, time_ns = 0\<rparr>],
                   [Stamp \<lparr>on_date = \<lparr>year = 2024, month = 2, day = 1\<rparr>, time_ns = 0\<rparr>]]\<rparr>
          (Some \<lparr>year = 2024, month = 1, day = 1\<rparr>) (Some \<lparr>year = 2024, month = 1, day = 31\<rparr>))
   = Inr \<lparr>columns = [(''Date'', Datetime64)],
      rows = [[Stamp \<lparr>on_date = \<lparr>year = 2024, month = 1, day = 15\<rparr>, time_ns = 0\<rparr>]]\<rparr>
   \<and> fst (filter_df sample_library ''Date''
          \<lparr>columns = [(''Date'', Object)], rows = [[Str ''2024-01-15''], [Str ''soon'']]\<rparr>
          (Some \<lparr>year = 2024, month = 1, day = 1\<rparr>) (Some \<lparr>year = 2024, month = 1, day = 31\<rparr>))
   = \<lparr>columns = [(''Date'', Datetime64)],
      rows = [[Stamp \<lparr>on_date = \<lparr>year = 2024, month = 1, day = 15\<rparr>, time_ns = 0\<rparr>]]\<rparr>
   \<and> fst (filter_df_index sample_library
          \<lparr>columns = [(''Date'', Object)], rows = [[Str ''2024-01-15''], [Str ''soon'']]\<rparr>
          (Some \<lparr>year = 2024, month = 1, day = 1\<rparr>) (Some \<lparr>year = 2024, month = 1, day = 31\<rparr>))
   = Inr \<lparr>columns = [(''Date'', Datetime64)],
      rows = [[Stamp \<lparr>on_date = \<lparr>year = 2024, month = 1, day = 15\<rparr>, time_ns = 0\<rparr>]]\<rparr>
   \<and> fst (filter_df sample_library ''Date''
          \<lparr>columns = [(''Date'', Datetime64)], rows = [[NaT], [NaT]]\<rparr>
          (Some \<lparr>year = 2024, month = 1, day = 1\<rparr>) (Some \<lparr>year = 2024, month = 1, day = 31\<rparr>))
   = \<lparr>columns = [(''Date'', Datetime64)], rows = []\<rparr>
   \<and> \<not> in_range \<lparr>year = 2024, month = 1, day = 1\<rparr> \<lparr>year = 2024, month = 1, day = 31\<rparr> NaT"
proof -
  let ?a = "\<lparr>year = 2024, month = 1, day = 1\<rparr>"
  let ?b = "\<lparr>year = 2024, month = 1, day = 31\<rparr>"
  let ?r1 = "[Stamp \<lparr>on_date = \<lparr>year = 2024, month = 1, day = 15\<rparr>, time_ns = 0\<rparr>]"
  let ?r2 = "[Stamp \<lparr>on_date = \<lparr>year = 2024, month = 2, day = 1\<rparr>, time_ns = 0\<rparr>]"
  let ?df = "\<lparr>columns = [(''Date'', Datetime64)], rows = [?r1, ?r2]\<rparr>"
  let ?ob = "\<lparr>columns = [(''Date'', Object)], rows = [[Str ''2024-01-15''], [Str ''soon'']]\<rparr>"
  let ?fl = "\<lparr>columns = [(''Date'', Float64)], rows = [[NaN], [NaN]]\<rparr>"
  let ?vs = "[Stamp \<lparr>on_date = \<lparr>year = 2024, month = 1, day = 15\<rparr>, time_ns = 0\<rparr>,
              Stamp \<lparr>on_date = \<lparr>year = 2024, month = 2, day = 1\<rparr>, time_ns = 0\<rparr>]"
  let ?s' = "(Datetime64,
              [Stamp \<lparr>on_date = \<lparr>year = 2024, month = 1, day = 15\<rparr>, time_ns = 0\<rparr>, NaT])"
  let ?n' = "(Datetime64, [NaT, NaT])"
  let ?one = "\<lparr>columns = [(''Date'', Datetime64)], rows = [?r1]\<rparr>"
  have h1: "series ?df ''Date'' = Some (Datetime64, ?vs)" by code_simp
  have h2: "dt_accessible Datetime64" by code_simp
  have h3: "find (\<lambda>c. contains ''date'' (lower c)) (column_names ?df) = Some ''Date''"
    by code_simp
  have h4: "series ?ob ''Date'' = Some (Object, [Str ''2024-01-15'', Str ''soon''])" by code_simp
  have h5: "to_datetime sample_library Object [Str ''2024-01-15'', Str ''soon''] = Inr ?s'"
    by code_simp
  have h6: "cell_date NaT = None" by code_simp
  have h7: "to_datetime_series sample_library (Datetime64, ?vs) = Inr (Datetime64, ?vs)"
    by code_simp
  have h8: "find (\<lambda>c. contains ''date'' (lower c)) (column_names ?ob) = Some ''Date''"
    by code_simp
  have h9: "to_datetime_series sample_library (Object, [Str ''2024-01-15'', Str ''soon''])
              = Inr ?s'"
    by code_simp
  have h10: "map_of (columns ?fl) ''Date'' = Some Float64" by code_simp
  have e1: "?df\<lparr>rows := filter (\<lambda>r. in_range ?a ?b (r ! index_of ''Date'' (column_names ?df)))
                           (rows ?df)\<rparr> = ?one"
    by code_simp
  have e2: "(set_column ?ob ''Date'' ?s')\<lparr>rows :=
               filter (\<lambda>r. in_range ?a ?b (r ! index_of ''Date'' (column_names ?ob)))
                 (rows (set_column ?ob ''Date'' ?s'))\<rparr> = ?one"
    by code_simp
  have e3: "(set_column ?df ''Date'' (Datetime64, ?vs))\<lparr>rows :=
               filter (\<lambda>r. in_range ?a ?b (r ! index_of ''Date'' (column_names ?df)))
                 (rows (set_column ?df ''Date'' (Datetime64, ?vs)))\<rparr> = ?one"
    by code_simp
  have e4: "set_column ?fl ''Date'' ?n' = \<lparr>columns = [(''Date'', Datetime64)], rows = [[NaT], [NaT]]\<rparr>"
    by code_simp
  have e5: "(set_column ?fl ''Date'' ?n')\<lparr>rows :=
               filter (\<lambda>r. in_range ?a ?b (r ! index_of ''Date'' (column_names ?fl)))
                 (rows (set_column ?fl ''Date'' ?n'))\<rparr>
            = \<lparr>columns = [(''Date'', Datetime64)], rows = []\<rparr>"
    by code_simp
  from filter_df_retains_rows_in_range [where df = ?df and dc = "''Date''" and t = Datetime64
      and vs = ?vs and L = sample_library and s = ?a and e = ?b and c = "''Date''" and v = NaT
      and col = "(Datetime64, ?vs)" and s' = "(Datetime64, ?vs)"]
    h1 h2 h3 h6 h7 e1 e3
  have p1: "fst (filter_df sample_library ''Date'' ?df (Some ?a) (Some ?b)) = ?one"
    and p2: "fst (filter_df_index sample_library ?df (Some ?a) (Some ?b)) = Inr ?one"
    and p3: "\<not> in_range ?a ?b NaT"
    by simp_all
  from filter_df_retains_rows_in_range [where df = ?ob and dc = "''Date''"
      and vs = "[Str ''2024-01-15'', Str ''soon'']" and L = sample_library and s = ?a and e = ?b
      and s' = ?s' and c = "''Date''" and col = "(Object, [Str ''2024-01-15'', Str ''soon''])"]
    h2 h4 h5 h8 h9 e2
  have p4: "fst (filter_df sample_library ''Date'' ?ob (Some ?a) (Some ?b)) = ?one"
    and p5: "fst (filter_df_index sample_library ?ob (Some ?a) (Some ?b)) = Inr ?one"
    by simp_all
  from filter_df_retains_rows_in_range [where df = ?fl and dc = "''Date''" and t = Float64
      and L = sample_library and s = ?a and e = ?b and s' = ?n'] h2 h10 e4 e5
  have p6: "fst (filter_df sample_library ''Date''
              \<lparr>columns = [(''Date'', Datetime64)], rows = [[NaT], [NaT]]\<rparr> (Some ?a) (Some ?b))
            = \<lparr>columns = [(''Date'', Datetime64)], rows = []\<rparr>"
    by simp
  from p1 p2 p3 p4 p5 p6 show ?thesis by simp
qed

text \<open>
  What \<^verbatim>\<open>filter_df\<close> of app.py does not coerce: on a \<open>Date\<close> column that is neither
  object-typed nor datetime-typed the date access raises and the table comes back as it
  is. The endpoints of app.py do not pass such a table: \<^verbatim>\<open>fetch_excel\<close> has coerced the
  column (\<open>fetch_excel_miss_coerces\<close>).
\<close>

lemma fetch_excel_miss_coerces:
  assumes "cache_hit now st = None"
    and "download L (to_export_url (excel_url cfg))
           (if api_key cfg \<noteq> [] \<and> api_key cfg \<noteq> ''YOUR_API_KEY''
            then [(''Authorization'', ''Bearer '' @ api_key cfg)] else []) = Inr df"
    and "series df (date_column_name cfg) = Some col"
    and "to_datetime_series L col = Inr s'"
  shows "fst (fetch_excel L cfg now st) = Inr (set_column df (date_column_name cfg) s')"
  using assms by (simp add: fetch_excel_def Let_def)

lemma filter_df_other_dtype:
  assumes "series df dc = Some (t, vs)" and "t \<noteq> Object" and "\<not> dt_accessible t"
  shows "filter_df L dc df (Some s) (Some e) = (df, df)"
  using assms by (simp add: filter_df_def mask_and_select_def)

text \<open>
  C6, as stated, fails: \<^verbatim>\<open>filter_df\<close> of api/index.py assigns the coerced column to its
  argument. The object-typed \<open>Date\<close> column of the input becomes a datetime column and the
  text it could not read becomes not-a-time.
\<close>

theorem filter_df_index_coerces_its_argument:
  "snd (filter_df_index sample_library
          \<lparr>columns = [(''Date'', Object), (''BD'', Object)],
           rows = [[Str ''2024-01-15'', Str ''Alice''], [Str ''soon'', Str ''Bob'']]\<rparr>
          (Some \<lparr>year = 2024, month = 1, day = 1\<rparr>) (Some \<lparr>year = 2024, month = 1, day = 31\<rparr>))
   = \<lparr>columns = [(''Date'', Datetime64), (''BD'', Object)],
      rows = [[Stamp \<lparr>on_date = \<lparr>year = 2024, month = 1, day = 15\<rparr>, time_ns = 0\<rparr>, Str ''Alice''],
              [NaT, Str ''Bob'']]\<rparr>"
  by code_simp

text \<open>
  C6, amended. \<^verbatim>\<open>filter_df\<close> leaves its input table as it was when a bound is missing,
  when no date column is identified, when the coercion raises, and when the date column
  is not object-typed (app.py) or is already \<^verbatim>\<open>datetime64[ns]\<close> (api/index.py).
  Otherwise (an object-typed \<open>Date\<close> column in app.py, the identified column in
  api/index.py) it assigns the coercion of the date column to the input table itself:
  in a well-formed table that column then holds the coerced values and their dtype. The
  column names, the number of rows and every other column of the input stay as they
  were. The table returned has the columns of the input as the call leaves it, and only
  rows of it.
\<close>

theorem filter_df_assigns_coercion_to_argument:
  "(series df dc = None \<or> lo = None \<or> hi = None \<longrightarrow> snd (filter_df L dc df lo hi) = df)
   \<and> (series df dc = Some (t, vs) \<and> t \<noteq> Object \<longrightarrow> snd (filter_df L dc df lo hi) = df)
   \<and> (series df dc = Some (Object, vs) \<and> to_datetime L Object vs = Inl err
        \<longrightarrow> snd (filter_df L dc df lo hi) = df)
   \<and> (series df dc = Some (Object, vs) \<and> to_datetime L Object vs = Inr s'
        \<longrightarrow> snd (filter_df L dc df (Some s) (Some e)) = set_column df dc s')
   \<and> (lo = None \<or> hi = None
        \<or> find (\<lambda>c. contains ''date'' (lower c)) (column_names df) = None
        \<longrightarrow> snd (filter_df_index L df lo hi) = df)
   \<and> (find (\<lambda>c. contains ''date'' (lower c)) (column_names df) = Some c
        \<and> series df c = Some (Datetime64, vs)
        \<longrightarrow> snd (filter_df_index L df lo hi) = df)
   \<and> (find (\<lambda>c. contains ''date'' (lower c)) (column_names df) = Some c
        \<and> series df c = Some col \<and> to_datetime_series L col = Inl err
        \<longrightarrow> snd (filter_df_index L df lo hi) = df)
   \<and> (find (\<lambda>c. contains ''date'' (lower c)) (column_names df) = Some c
        \<and> series df c = Some col \<and> to_datetime_series L col = Inr s'
        \<longrightarrow> snd (filter_df_index L df (Some s) (Some e)) = set_column df c s')
   \<and> (wf_df df \<and> map_of (columns df) c = Some t \<and> length (snd s') = length (rows df)
        \<longrightarrow> series (set_column df c s') c = Some s')
   \<and> column_names (snd (filter_df L dc df lo hi)) = column_names df
   \<and> length (rows (snd (filter_df L dc df lo hi))) = length (rows df)
   \<and> (c' \<noteq> dc \<longrightarrow> series (snd (filter_df L dc df lo hi)) c' = series df c')
   \<and> column_names (snd (filter_df_index L df lo hi)) = column_names df
   \<and> length (rows (snd (filter_df_index L df lo hi))) = length (rows df)
   \<and> (find (\<lambda>c. contains ''date'' (lower c)) (column_names df) \<noteq> Some c'
        \<longrightarrow> series (snd (filter_df_index L df lo hi)) c' = series df c')
   \<and> columns (fst (filter_df L dc df lo hi)) = columns (snd (filter_df L dc df lo hi))
   \<and> set (rows (fst (filter_df L dc df lo hi))) \<subseteq> set (rows (snd (filter_df L dc df lo hi)))
   \<and> (fst (filter_df_index L df lo hi) = Inr out
        \<longrightarrow> columns out = columns (snd (filter_df_index L df lo hi))
            \<and> set (rows out) \<subseteq> set (rows (snd (filter_df_index L df lo hi))))"
proof -
  have a1: "series df dc = None \<or> lo = None \<or> hi = None \<longrightarrow> snd (filter_df L dc df lo hi) = df"
    using filter_df_snd_no_filter by blast
  have a2: "series df dc = Some (t, vs) \<and> t \<noteq> Object \<longrightarrow> snd (filter_df L dc df lo hi) = df"
    using filter_df_snd_not_object by blast
  have a3: "series df dc = Some (Object, vs) \<and> to_datetime L Object vs = Inl err
        \<longrightarrow> snd (filter_df L dc df lo hi) = df"
    using filter_df_snd_object_raises by blast
  have a4: "series df dc = Some (Object, vs) \<and> to_datetime L Object vs = Inr s'
        \<longrightarrow> snd (filter_df L dc df (Some s) (Some e)) = set_column df dc s'"
    using filter_df_snd_object_coerced by blast
  have i1: "lo = None \<or> hi = None
        \<or> find (\<lambda>c. contains ''date'' (lower c)) (column_names df) = None
        \<longrightarrow> snd (filter_df_index L df lo hi) = df"
    using filter_df_index_snd_no_filter by blast
  have i2: "find (\<lambda>c. contains ''date'' (lower c)) (column_names df) = Some c
        \<and> series df c = Some (Datetime64, vs)
        \<longrightarrow> snd (filter_df_index L df lo hi) = df"
    using filter_df_index_snd_datetime by blast
  have i3: "find (\<lambda>c. contains ''date'' (lower c)) (column_names df) = Some c
        \<and> series df c = Some col \<and> to_datetime_series L col = Inl err
        \<longrightarrow> snd (filter_df_index L df lo hi) = df"
    using filter_df_index_snd_raises by blast
  have i4: "find (\<lambda>c. contains ''date'' (lower c)) (column_names df) = Some c
        \<and> series df c = Some col \<and> to_datetime_series L col = Inr s'
        \<longrightarrow> snd (filter_df_index L df (Some s) (Some e)) = set_column df c s'"
    using filter_df_index_snd_coerced by blast
  have w: "wf_df df \<and> map_of (columns df) c = Some t \<and> length (snd s') = length (rows df)
        \<longrightarrow> series (set_column df c s') c = Some s'"
    using series_set_column_assigned by blast
  have f1: "column_names (snd (filter_df L dc df lo hi)) = column_names df"
    using filter_df_snd_cases [of L dc df lo hi]
    by (auto simp: column_names_set_column)
  have f2: "length (rows (snd (filter_df L dc df lo hi))) = length (rows df)"
    using filter_df_snd_cases [of L dc df lo hi]
    by (auto simp: length_rows_set_column)
  have f3: "c' \<noteq> dc \<longrightarrow> series (snd (filter_df L dc df lo hi)) c' = series df c'"
    using filter_df_snd_cases [of L dc df lo hi]
    by (auto simp: series_set_column_other)
  have g1: "column_names (snd (filter_df_index L df lo hi)) = column_names df"
    using filter_df_index_snd_cases [of L df lo hi]
    by (auto simp: column_names_set_column)
  have g2: "length (rows (snd (filter_df_index L df lo hi))) = length (rows df)"
    using filter_df_index_snd_cases [of L df lo hi]
    by (auto simp: length_rows_set_column)
  have g3: "find (\<lambda>c. contains ''date'' (lower c)) (column_names df) \<noteq> Some c'
        \<longrightarrow> series (snd (filter_df_index L df lo hi)) c' = series df c'"
    using filter_df_index_snd_cases [of L df lo hi]
    by (auto simp: series_set_column_other)
  have r1: "columns (fst (filter_df L dc df lo hi)) = columns (snd (filter_df L dc df lo hi))"
    and r2: "set (rows (fst (filter_df L dc df lo hi)))
               \<subseteq> set (rows (snd (filter_df L dc df lo hi)))"
    using filter_df_returns_selection [of L dc df lo hi] by simp_all
  have r3: "fst (filter_df_index L df lo hi) = Inr out
        \<longrightarrow> columns out = columns (snd (filter_df_index L df lo hi))
            \<and> set (rows out) \<subseteq> set (rows (snd (filter_df_index L df lo hi)))"
    using filter_df_index_returns_selection by blast
  show ?thesis
    by (intro conjI) (rule a1, rule a2, rule a3, rule a4, rule i1, rule i2, rule i3, rule i4,
        rule w, rule f1, rule f2, rule f3, rule g1, rule g2, rule g3, rule r1, rule r2, rule r3)
qed

theorem filter_df_assigns_coercion_to_argument_witness:
  "snd (filter_df_index sample_library
          \<lparr>columns = [(''Date'', Object), (''BD'', Object)],
           rows = [[Str ''2024-01-15'', Str ''Alice''], [Str ''soon'', Str ''Bob'']]\<rparr>
          (Some \<lparr>year = 2024, month = 1, day = 1\<rparr>) (Some \<lparr>year = 2024, month = 1, day = 31\<rparr>))
     = \<lparr>columns = [(''Date'', Datetime64), (''BD'', Object)],
        rows = [[Stamp \<lparr>on_date = \<lparr>year = 2024, month = 1, day = 15\<rparr>, time_ns = 0\<rparr>,
                 Str ''Alice''],
                [NaT, Str ''Bob'']]\<rparr>
   \<and> snd (filter_df sample_library ''Date''
          \<lparr>columns = [(''Date'', Object), (''BD'', Object)],
           rows = [[Str ''2024-01-15'', Str ''Alice''], [Str ''soon'', Str ''Bob'']]\<rparr>
          (Some \<lparr>year = 2024, month = 1, day = 1\<rparr>) (Some \<lparr>year = 2024, month = 1, day = 31\<rparr>))
     = \<lparr>columns = [(''Date'', Datetime64), (''BD'', Object)],
        rows = [[Stamp \<lparr>on_date = \<lparr>year = 2024, month = 1, day = 15\<rparr>, time_ns = 0\<rparr>,
                 Str ''Alice''],
                [NaT, Str ''Bob'']]\<rparr>
   \<and> series (set_column
          \<lparr>columns = [(''Date'', Object), (''BD'', Object)],
           rows = [[Str ''2024-01-15'', Str ''Alice''], [Str ''soon'', Str ''Bob'']]\<rparr> ''Date''
          (Datetime64,
           [Stamp \<lparr>on_date = \<lparr>year = 2024, month = 1, day = 15\<rparr>, time_ns = 0\<rparr>, NaT])) ''Date''
     = Some (Datetime64,
           [Stamp \<lparr>on_date = \<lparr>year = 2024, month = 1, day = 15\<rparr>, time_ns = 0\<rparr>, NaT])
   \<and> series (snd (filter_df_index sample_library
          \<lparr>columns = [(''Date'', Object), (''BD'', Object)],
           rows = [[Str ''2024-01-15'', Str ''Alice''], [Str ''soon'', Str ''Bob'']]\<rparr>
          (Some \<lparr>year = 2024, month = 1, day = 1\<rparr>) (Some \<lparr>year = 2024, month = 1, day = 31\<rparr>)))
        ''BD''
     = Some (Object, [Str ''Alice'', Str ''Bob''])
   \<and> series (snd (filter_df sample_library ''Date''
          \<lparr>columns = [(''Date'', Object), (''BD'', Object)],
           rows = [[Str ''2024-01-15'', Str ''Alice''], [Str ''soon'', Str ''Bob'']]\<rparr>
          (Some \<lparr>year = 2024, month = 1, day = 1\<rparr>) (Some \<lparr>year = 2024, month = 1, day = 31\<rparr>)))
        ''BD''
     = Some (Object, [Str ''Alice'', Str ''Bob''])
   \<and> snd (filter_df_index sample_library
          \<lparr>columns = [(''Date'', Object), (''BD'', Object)],
           rows = [[Str ''2024-01-15'', Str ''Alice''], [Str ''soon'', Str ''Bob'']]\<rparr> None None)
     = \<lparr>columns = [(''Date'', Object), (''BD'', Object)],
        rows = [[Str ''2024-01-15'', Str ''Alice''], [Str ''soon'', Str ''Bob'']]\<rparr>
   \<and> snd (filter_df sample_library ''Date''
          \<lparr>columns = [(''Date'', Object), (''BD'', Object)],
           rows = [[Str ''2024-01-15'', Str ''Alice''], [Str ''soon'', Str ''Bob'']]\<rparr> None None)
     = \<lparr>columns = [(''Date'', Object), (''BD'', Object)],
        rows = [[Str ''2024-01-15'', Str ''Alice''], [Str ''soon'', Str ''Bob'']]\<rparr>
   \<and> snd (filter_df_index (sample_library\<lparr>to_datetime := (\<lambda>t cs. Inl ValueError)\<rparr>)
          \<lparr>columns = [(''Date'', Object), (''BD'', Object)],
           rows = [[Str ''2024-01-15'', Str ''Alice''], [Str ''soon'', Str ''Bob'']]\<rparr>
          (Some \<lparr>year = 2024, month = 1, day = 1\<rparr>) (Some \<lparr>year = 2024, month = 1, day = 31\<rparr>))
     = \<lparr>columns = [(''Date'', Object), (''BD'', Object)],
        rows = [[Str ''2024-01-15'', Str ''Alice''], [Str ''soon'', Str ''Bob'']]\<rparr>
   \<and> snd (filter_df (sample_library\<lparr>to_datetime := (\<lambda>t cs. Inl ValueError)\<rparr>) ''Date''
          \<lparr>columns = [(''Date'', Object), (''BD'', Object)],
           rows = [[Str ''2024-01-15'', Str ''Alice''], [Str ''soon'', Str ''Bob'']]\<rparr>
          (Some \<lparr>year = 2024, month = 1, day = 1\<rparr>) (Some \<lparr>year = 2024, month = 1, day = 31\<rparr>))
     = \<lparr>columns = [(''Date'', Object), (''BD'', Object)],
        rows = [[Str ''2024-01-15'', Str ''Alice''], [Str ''soon'', Str ''Bob'']]\<rparr>
   \<and> snd (filter_df sample_library ''Date''
          \<lparr>columns = [(''Date'', Datetime64), (''BD'', Object)],
           rows = [[Stamp \<lparr>on_date = \<lparr>year = 2024, month = 2, day = 1\<rparr>, time_ns = 0\<rparr>,
                    Str ''Alice'']]\<rparr>
          (Some \<lparr>year = 2024, month = 1, day = 1\<rparr>) (Some \<lparr>year = 2024, month = 1, day = 31\<rparr>))
     = \<lparr>columns = [(''Date'', Datetime64), (''BD'', Object)],
        rows = [[Stamp \<lparr>on_date = \<lparr>year = 2024, month = 2, day = 1\<rparr>, time_ns = 0\<rparr>,
                 Str ''Alice'']]\<rparr>
   \<and> snd (filter_df_index sample_library
          \<lparr>columns = [(''Date'', Datetime64), (''BD'', Object)],
           rows = [[Stamp \<lparr>on_date = \<lparr>year = 2024, month = 2, day = 1\<rparr>, time_ns = 0\<rparr>,
                    Str ''Alice'']]\<rparr>
          (Some \<lparr>year = 2024, month = 1, day = 1\<rparr>) (Some \<lparr>year = 2024, month = 1, day = 31\<rparr>))
     = \<lparr>columns = [(''Date'', Datetime64), (''BD'', Object)],
        rows = [[Stamp \<lparr>on_date = \<lparr>year = 2024, month = 2, day = 1\<rparr>, time_ns = 0\<rparr>,
                 Str ''Alice'']]\<rparr>
   \<and> columns (fst (filter_df sample_library ''Date''
          \<lparr>columns = [(''Date'', Object), (''BD'', Object)],
           rows = [[Str ''2024-01-15'', Str ''Alice''], [Str ''soon'', Str ''Bob'']]\<rparr>
          (Some \<lparr>year = 2024, month = 1, day = 1\<rparr>) (Some \<lparr>year = 2024, month = 1, day = 31\<rparr>)))
     = [(''Date'', Datetime64), (''BD'', Object)]"
proof -
  let ?a = "\<lparr>year = 2024, month = 1, day = 1\<rparr>"
  let ?b = "\<lparr>year = 2024, month = 1, day = 31\<rparr>"
  let ?st = "Stamp \<lparr>on_date = \<lparr>year = 2024, month = 2, day = 1\<rparr>, time_ns = 0\<rparr>"
  let ?df = "\<lparr>columns = [(''Date'', Datetime64), (''BD'', Object)], rows = [[?st, Str ''Alice'']]\<rparr>"
  let ?ob = "\<lparr>columns = [(''Date'', Object), (''BD'', Object)],
              rows = [[Str ''2024-01-15'', Str ''Alice''], [Str ''soon'', Str ''Bob'']]\<rparr>"
  let ?vs = "[Str ''2024-01-15'', Str ''soon'']"
  let ?s' = "(Datetime64,
              [Stamp \<lparr>on_date = \<lparr>year = 2024, month = 1, day = 15\<rparr>, time_ns = 0\<rparr>, NaT])"
  let ?co = "\<lparr>columns = [(''Date'', Datetime64), (''BD'', Object)],
        rows = [[Stamp \<lparr>on_date = \<lparr>year = 2024, month = 1, day = 15\<rparr>, time_ns = 0\<rparr>,
                 Str ''Alice''],
                [NaT, Str ''Bob'']]\<rparr>"
  let ?R = "sample_library\<lparr>to_datetime := (\<lambda>t cs. Inl ValueError)\<rparr>"
  have h1: "series ?df ''Date'' = Some (Datetime64, [?st])" by code_simp
  have h2: "find (\<lambda>c. contains ''date'' (lower c)) (column_names ?df) = Some ''Date''"
    by code_simp
  have h3: "series ?ob ''BD'' = Some (Object, [Str ''Alice'', Str ''Bob''])" by code_simp
  have h4: "series ?ob ''Date'' = Some (Object, ?vs)" by code_simp
  have h5: "find (\<lambda>c. contains ''date'' (lower c)) (column_names ?ob) = Some ''Date''"
    by code_simp
  have h6: "to_datetime sample_library Object ?vs = Inr ?s'" by code_simp
  have h7: "to_datetime_series sample_library (Object, ?vs) = Inr ?s'" by code_simp
  have h8: "set_column ?ob ''Date'' ?s' = ?co" by code_simp
  have h9: "wf_df ?ob" by code_simp
  have h10: "map_of (columns ?ob) ''Date'' = Some Object" by code_simp
  have h11: "to_datetime ?R Object ?vs = Inl ValueError" by simp
  have h12: "to_datetime_series ?R (Object, ?vs) = Inl ValueError"
    by (simp add: to_datetime_series_def)
  have h13: "columns ?co = [(''Date'', Datetime64), (''BD'', Object)]" by simp
  note T = filter_df_assigns_coercion_to_argument
  note A1 = T [THEN conjunct1]
  note A2 = T [THEN conjunct2, THEN conjunct1]
  note A3 = T [THEN conjunct2, THEN conjunct2, THEN conjunct1]
  note A4 = T [THEN conjunct2, THEN conjunct2, THEN conjunct2, THEN conjunct1]
  note I1 = T [THEN conjunct2, THEN conjunct2, THEN conjunct2, THEN conjunct2, THEN conjunct1]
  note I2 = T [THEN conjunct2, THEN conjunct2, THEN conjunct2, THEN conjunct2, THEN conjunct2, THEN conjunct1]
  note I3 = T [THEN conjunct2, THEN conjunct2, THEN conjunct2, THEN conjunct2, THEN conjunct2, THEN conjunct2, THEN conjunct1]
  note I4 = T [THEN conjunct2, THEN conjunct2, THEN conjunct2, THEN conjunct2, THEN conjunct2, THEN conjunct2, THEN conjunct2, THEN conjunct1]
  note W = T [THEN conjunct2, THEN conjunct2, THEN conjunct2, THEN conjunct2, THEN conjunct2, THEN conjunct2, THEN conjunct2, THEN conjunct2, THEN conjunct1]
  note F1 = T [THEN conjunct2, THEN conjunct2, THEN conjunct2, THEN conjunct2, THEN conjunct2, THEN conjunct2, THEN conjunct2, THEN conjunct2, THEN conjunct2, THEN conjunct1]
  note F2 = T [THEN conjunct2, THEN conjunct2, THEN conjunct2, THEN conjunct2, THEN conjunct2, THEN conjunct2, THEN conjunct2, THEN conjunct2, THEN conjunct2, THEN conjunct2, THEN conjunct1]
  note F3 = T [THEN conjunct2, THEN conjunct2, THEN conjunct2, THEN conjunct2, THEN conjunct2, THEN conjunct2, THEN conjunct2, THEN conjunct2, THEN conjunct2, THEN conjunct2, THEN conjunct2, THEN conjunct1]
  note G1 = T [THEN conjunct2, THEN conjunct2, THEN conjunct2, THEN conjunct2, THEN conjunct2, THEN conjunct2, THEN conjunct2, THEN conjunct2, THEN conjunct2, THEN conjunct2, THEN conjunct2, THEN conjunct2, THEN conjunct1]
  note G2 = T [THEN conjunct2, THEN conjunct2, THEN conjunct2, THEN conjunct2, THEN conjunct2, THEN conjunct2, THEN conjunct2, THEN conjunct2, THEN conjunct2, THEN conjunct2, THEN conjunct2, THEN conjunct2, THEN conjunct2, THEN conjunct1]
  note G3 = T [THEN conjunct2, THEN conjunct2, THEN conjunct2, THEN conjunct2, THEN conjunct2, THEN conjunct2, THEN conjunct2, THEN conjunct2, THEN conjunct2, THEN conjunct2, THEN conjunct2, THEN conjunct2, THEN conjunct2, THEN conjunct2, THEN conjunct1]
  note R1 = T [THEN conjunct2, THEN conjunct2, THEN conjunct2, THEN conjunct2, THEN conjunct2, THEN conjunct2, THEN conjunct2, THEN conjunct2, THEN conjunct2, THEN conjunct2, THEN conjunct2, THEN conjunct2, THEN conjunct2, THEN conjunct2, THEN conjunct2, THEN conjunct1]
  note R2 = T [THEN conjunct2, THEN conjunct2, THEN conjunct2, THEN conjunct2, THEN conjunct2, THEN conjunct2, THEN conjunct2, THEN conjunct2, THEN conjunct2, THEN conjunct2, THEN conjunct2, THEN conjunct2, THEN conjunct2, THEN conjunct2, THEN conjunct2, THEN conjunct2, THEN conjunct1]
  note R3 = T [THEN conjunct2, THEN conjunct2, THEN conjunct2, THEN conjunct2, THEN conjunct2, THEN conjunct2, THEN conjunct2, THEN conjunct2, THEN conjunct2, THEN conjunct2, THEN conjunct2, THEN conjunct2, THEN conjunct2, THEN conjunct2, THEN conjunct2, THEN conjunct2, THEN conjunct2]
  have h14: "length (snd ?s') = length (rows ?ob)" by simp
  have h15: "find (\<lambda>c. contains ''date'' (lower c)) (column_names ?ob) \<noteq> Some ''BD''"
    by (simp add: h5)
  have h16: "''BD'' \<noteq> ''Date''" by simp
  have h17: "Datetime64 \<noteq> Object" by simp
  have p1: "snd (filter_df_index sample_library ?ob (Some ?a) (Some ?b)) = ?co"
    using I4 [THEN mp, OF conjI [OF h5 conjI [OF h4 h7]]] h8 by simp
  have p2: "snd (filter_df sample_library ''Date'' ?ob (Some ?a) (Some ?b)) = ?co"
    using A4 [THEN mp, OF conjI [OF h4 h6]] h8 by simp
  have p3: "series (set_column ?ob ''Date'' ?s') ''Date'' = Some ?s'"
    by (rule W [THEN mp, OF conjI [OF h9 conjI [OF h10 h14]]])
  have p4: "series (snd (filter_df_index sample_library ?ob (Some ?a) (Some ?b))) ''BD''
               = Some (Object, [Str ''Alice'', Str ''Bob''])"
    using G3 [THEN mp, OF h15] h3 by simp
  have p5: "series (snd (filter_df sample_library ''Date'' ?ob (Some ?a) (Some ?b))) ''BD''
               = Some (Object, [Str ''Alice'', Str ''Bob''])"
    using F3 [THEN mp, OF h16] h3 by simp
  have p6: "snd (filter_df_index sample_library ?ob None None) = ?ob"
    by (rule I1 [THEN mp, OF disjI1, OF refl])
  have p7: "snd (filter_df sample_library ''Date'' ?ob None None) = ?ob"
    by (rule A1 [THEN mp, OF disjI2, OF disjI1, OF refl])
  have p8: "snd (filter_df_index ?R ?ob (Some ?a) (Some ?b)) = ?ob"
    by (rule I3 [THEN mp, OF conjI [OF h5 conjI [OF h4 h12]]])
  have p9: "snd (filter_df ?R ''Date'' ?ob (Some ?a) (Some ?b)) = ?ob"
    by (rule A3 [THEN mp, OF conjI [OF h4 h11]])
  have p10: "snd (filter_df sample_library ''Date'' ?df (Some ?a) (Some ?b)) = ?df"
    by (rule A2 [THEN mp, OF conjI [OF h1 h17]])
  have p11: "snd (filter_df_index sample_library ?df (Some ?a) (Some ?b)) = ?df"
    by (rule I2 [THEN mp, OF conjI [OF h2 h1]])
  have p12: "columns (fst (filter_df sample_library ''Date'' ?ob (Some ?a) (Some ?b)))
               = [(''Date'', Datetime64), (''BD'', Object)]"
    using R1 [of sample_library "''Date''" ?ob "Some ?a" "Some ?b"] p2 by simp
  from p1 p2 p3 p4 p5 p6 p7 p8 p9 p10 p11 p12 show ?thesis by simp
qed

section \<open>Properties of the endpoints\<close>

lemma calculate_counts_no_rows:
  "rows df = [] \<Longrightarrow>
   calculate_counts L df =
     Inr [(''opd_count'', 0), (''ipd_count'', 0), (''surgery_suggested'', 0),
          (''diagnostic_suggested'', 0), (''surgery_not_suggested'', 0), (''total_records'', 0)]"
  by (simp add: calculate_counts_result matching_rows_def split: option.splits)

text \<open>
  C9 fails on \<^verbatim>\<open>/api/filter\<close> of app.py: with a column named \<open>BD\<close>, the request
  \<open>field=bd&q=all_bd\<close> keeps only the rows whose value is \<open>all_bd\<close>, here none of two,
  and the response has no records and \<open>total_records\<close> zero. \<^verbatim>\<open>/api/counts\<close> of app.py
  counts the whole table for the same request.
\<close>

theorem api_filter_all_bd_drops_rows:
  "api_filter_table L cfg today
     \<lparr>arg_type = None, arg_start = None, arg_end = None, arg_field = Some ''bd'',
      arg_q = Some ''all_bd''\<rparr>
     \<lparr>columns = [(''BD'', Object)], rows = [[Str ''Alice''], [Str ''Bob'']]\<rparr>
   = Ok \<lparr>columns = [(''BD'', Object)], rows = []\<rparr>
   \<and> api_filter L cfg now today
     \<lparr>arg_type = None, arg_start = None, arg_end = None, arg_field = Some ''bd'',
      arg_q = Some ''all_bd''\<rparr>
     \<lparr>df_cache = Some \<lparr>columns = [(''BD'', Object)], rows = [[Str ''Alice''], [Str ''Bob'']]\<rparr>,
      last_fetched = Some now, net_calls = n\<rparr>
   = (Ok ([(''opd_count'', 0), (''ipd_count'', 0), (''surgery_suggested'', 0),
           (''diagnostic_suggested'', 0), (''surgery_not_suggested'', 0), (''total_records'', 0)],
          []),
      \<lparr>df_cache = Some \<lparr>columns = [(''BD'', Object)], rows = [[Str ''Alice''], [Str ''Bob'']]\<rparr>,
       last_fetched = Some now, net_calls = n\<rparr>)
   \<and> api_counts_table L cfg today
     \<lparr>arg_type = None, arg_start = None, arg_end = None, arg_field = Some ''bd'',
      arg_q = Some ''all_bd''\<rparr>
     \<lparr>columns = [(''BD'', Object)], rows = [[Str ''Alice''], [Str ''Bob'']]\<rparr>
   = Ok \<lparr>columns = [(''BD'', Object)], rows = [[Str ''Alice''], [Str ''Bob'']]\<rparr>"
proof (intro conjI)
  let ?req = "\<lparr>arg_type = None, arg_start = None, arg_end = None, arg_field = Some ''bd'',
               arg_q = Some ''all_bd''\<rparr>"
  let ?df = "\<lparr>columns = [(''BD'', Object)], rows = [[Str ''Alice''], [Str ''Bob'']]\<rparr>"
  let ?st = "\<lparr>df_cache = Some ?df, last_fetched = Some now, net_calls = n\<rparr>"
  show t: "api_filter_table L cfg today ?req ?df = Ok \<lparr>columns = [(''BD'', Object)], rows = []\<rparr>"
    by (rule api_filter_table_all_bd_example)
  have f: "fetch_excel L cfg now ?st = (Inr ?df, ?st)"
    by (rule fetch_excel_hit [where t = now]) (simp_all add: CACHE_SECONDS_def)
  show "api_filter L cfg now today ?req ?st =
      (Ok ([(''opd_count'', 0), (''ipd_count'', 0), (''surgery_suggested'', 0),
            (''diagnostic_suggested'', 0), (''surgery_not_suggested'', 0), (''total_records'', 0)],
           []), ?st)"
    by (simp add: api_filter_def f t calculate_counts_no_rows df_to_records_def)
  have l2: "lower ''bd'' = ''bd''" by code_simp
  have l3: "lower ''all_bd'' = ''all_bd''" by code_simp
  have d: "date_stage L cfg today ?req ?df = Ok ?df"
    by (simp add: date_stage_def requested_range_def truthy_def str_or_empty_def lower_def)
  show "api_counts_table L cfg today ?req ?df = Ok ?df"
    using api_counts_table_all_bd [where req = ?req and L = L and cfg = cfg and today = today
        and df = ?df]
    by (simp add: str_or_empty_def l2 l3 d)
qed

end
